theory Spec2Isabelle
  imports Complex_Main "HOL-Library.AList"
begin

section \<open>Python values the model needs\<close>

text \<open>
  Exceptions are values: a function of the source that may raise returns
  \<open>py_error + 'a\<close>, with \<open>Inl\<close> for the exception.
\<close>

datatype py_error =
    RuntimeError string
  | AttributeError string
  | NameError string
  | IndexError

section \<open>The input/output lookup of \<open>models/tables.py\<close>\<close>

text \<open>
  The mapped classes of \<open>tables.py\<close> that take part in the lookup: the four node
  classes, which inherit \<open>IORelationshipMixin\<close>, and the three association classes
  their relationships point to.
\<close>

datatype model_class =
    SurveyObservingSystem_class
  | SurveyDataProduct_class
  | SurveyApplication_class
  | SurveySocietalBenefitArea_class
  | SurveyObservingSystemDataProduct_class
  | SurveyDataProductApplication_class
  | SurveyApplicationSocietalBenefitArea_class

text \<open>
  What \<open>__io__\<close> reads of a class: whether it has an attribute
  \<open>input_relationships\<close> and one named \<open>output_relationships\<close>
  (\<open>hasattr\<close>), and the class each relationship leads to
  (\<open>.mapper.class_\<close>). \<open>None\<close> is a class without the attribute.
\<close>

record class_decl =
  input_relationships :: "model_class option"
  output_relationships :: "model_class option"

text \<open>
  \<open>IORelationship\<close> is a \<open>TypedDict\<close> with the two optional keys
  \<open>'input'\<close> and \<open>'output'\<close>: a dictionary, kept as an association list
  in insertion order.
\<close>

datatype io_key = Input | Output

type_synonym IORelationship = "(io_key \<times> model_class) list"

text \<open>
  The body of \<open>IORelationshipMixin.__io__\<close> (lines 54 to 66): start from the empty
  dictionary, store each relation the class has, raise \<open>RuntimeError\<close> when the
  dictionary is still empty.
\<close>

definition io_error_message :: string where
  "io_error_message =
     ''Please only use IORelationshipMixin on a model with input_relationships or output_relationships''"

definition io :: "class_decl \<Rightarrow> py_error + IORelationship" where
  "io cls =
     (let io0 = [];
          io1 = (case input_relationships cls of
                   Some c \<Rightarrow> AList.update Input c io0
                 | None \<Rightarrow> io0);
          io2 = (case output_relationships cls of
                   Some c \<Rightarrow> AList.update Output c io1
                 | None \<Rightarrow> io1)
      in if io2 = [] then Inl (RuntimeError io_error_message) else Inr io2)"

text \<open>
  The relationships the four node classes declare (lines 234, 290, 295, 336, 341 and
  373). The association classes do not inherit the mixin and declare neither.
\<close>

fun declared :: "model_class \<Rightarrow> class_decl" where
  "declared SurveyObservingSystem_class =
     \<lparr>input_relationships = None,
      output_relationships = Some SurveyObservingSystemDataProduct_class\<rparr>"
| "declared SurveyDataProduct_class =
     \<lparr>input_relationships = Some SurveyObservingSystemDataProduct_class,
      output_relationships = Some SurveyDataProductApplication_class\<rparr>"
| "declared SurveyApplication_class =
     \<lparr>input_relationships = Some SurveyDataProductApplication_class,
      output_relationships = Some SurveyApplicationSocietalBenefitArea_class\<rparr>"
| "declared SurveySocietalBenefitArea_class =
     \<lparr>input_relationships = Some SurveyApplicationSocietalBenefitArea_class,
      output_relationships = None\<rparr>"
| "declared SurveyObservingSystemDataProduct_class =
     \<lparr>input_relationships = None, output_relationships = None\<rparr>"
| "declared SurveyDataProductApplication_class =
     \<lparr>input_relationships = None, output_relationships = None\<rparr>"
| "declared SurveyApplicationSocietalBenefitArea_class =
     \<lparr>input_relationships = None, output_relationships = None\<rparr>"

text \<open>
  When the lookup runs. A \<open>class\<close> statement binds the class; the mixin has no
  metaclass, no \<open>__init_subclass__\<close> and no class-body code besides the method
  definition, so defining a class that inherits it runs none of \<open>__io__\<close>.
  \<open>__io__\<close> is a \<open>classmethod\<close> wrapped in \<open>functools.cache\<close>: a call
  looks the class up in the cache, runs the body on a miss and stores the value it
  returns; a call that raises stores nothing. The cache is keyed by the class object,
  so a class newly bound to a name starts without an entry.
\<close>

record interp =
  classes :: "(string \<times> class_decl) list"
  io_cache :: "(string \<times> IORelationship) list"

definition startup :: interp where
  "startup = \<lparr>classes = [], io_cache = []\<rparr>"

definition define_class :: "string \<Rightarrow> class_decl \<Rightarrow> interp \<Rightarrow> py_error + interp" where
  "define_class name cls st =
     Inr (st\<lparr>classes := AList.update name cls (classes st),
              io_cache := AList.delete name (io_cache st)\<rparr>)"

definition call_io :: "string \<Rightarrow> interp \<Rightarrow> (py_error + IORelationship) \<times> interp" where
  "call_io name st =
     (case map_of (classes st) name of
        None \<Rightarrow> (Inl (NameError name), st)
      | Some cls \<Rightarrow>
          (case map_of (io_cache st) name of
             Some r \<Rightarrow> (Inr r, st)
           | None \<Rightarrow>
               (case io cls of
                  Inl e \<Rightarrow> (Inl e, st)
                | Inr r \<Rightarrow> (Inr r, st\<lparr>io_cache := AList.update name r (io_cache st)\<rparr>))))"

section \<open>The tables of \<open>models/tables.py\<close>\<close>

subsection \<open>Rating columns and their check constraints\<close>

text \<open>
  The text of a \<open>CheckConstraint\<close> is a SQL condition on the row. The three
  conditions of \<open>tables.py\<close> compare one integer column with literals and join
  the comparisons with \<open>and\<close>. SQL evaluates a condition to true, false or
  unknown (a comparison with \<open>NULL\<close>); a check rejects the row only when its
  condition is false.
\<close>

datatype sql_expr =
    Gt string int
  | Ge string int
  | Lt string int
  | Le string int
  | And sql_expr sql_expr

fun sql_compare :: "(int \<Rightarrow> int \<Rightarrow> bool) \<Rightarrow> int option \<Rightarrow> int \<Rightarrow> bool option" where
  "sql_compare ord None k = None"
| "sql_compare ord (Some v) k = Some (ord v k)"

fun sql_and :: "bool option \<Rightarrow> bool option \<Rightarrow> bool option" where
  "sql_and (Some False) q = Some False"
| "sql_and p (Some False) = Some False"
| "sql_and (Some True) (Some True) = Some True"
| "sql_and p q = None"

fun eval_check :: "(string \<Rightarrow> int option) \<Rightarrow> sql_expr \<Rightarrow> bool option" where
  "eval_check row (Gt c k) = sql_compare (\<lambda>v k. v > k) (row c) k"
| "eval_check row (Ge c k) = sql_compare (\<lambda>v k. v \<ge> k) (row c) k"
| "eval_check row (Lt c k) = sql_compare (\<lambda>v k. v < k) (row c) k"
| "eval_check row (Le c k) = sql_compare (\<lambda>v k. v \<le> k) (row c) k"
| "eval_check row (And a b) = sql_and (eval_check row a) (eval_check row b)"

text \<open>
  A rating column as it is declared: its name, its check and \<open>nullable\<close>. The
  value offered for the column is \<open>None\<close> for \<open>NULL\<close>.
\<close>

record rating_column =
  column_name :: string
  check_constraint :: sql_expr
  nullable :: bool

definition accepts :: "rating_column \<Rightarrow> int option \<Rightarrow> bool" where
  "accepts c v =
     ((if nullable c then True else v \<noteq> None)
      \<and> eval_check (\<lambda>n. if n = column_name c then v else None) (check_constraint c)
          \<noteq> Some False)"

text \<open>The six rating columns, with the conditions of lines 325, 428, 436, 493, 501 and 560.\<close>

definition SurveyApplication_performance_rating :: rating_column where
  "SurveyApplication_performance_rating =
     \<lparr>column_name = ''performance_rating'',
      check_constraint = And (Gt ''performance_rating'' 0) (Lt ''performance_rating'' 101),
      nullable = False\<rparr>"

definition SurveyObservingSystemDataProduct_criticality_rating :: rating_column where
  "SurveyObservingSystemDataProduct_criticality_rating =
     \<lparr>column_name = ''criticality_rating'',
      check_constraint = And (Ge ''criticality_rating'' 0) (Le ''criticality_rating'' 100),
      nullable = False\<rparr>"

definition SurveyObservingSystemDataProduct_performance_rating :: rating_column where
  "SurveyObservingSystemDataProduct_performance_rating =
     \<lparr>column_name = ''performance_rating'',
      check_constraint = And (Ge ''performance_rating'' 0) (Le ''performance_rating'' 100),
      nullable = False\<rparr>"

definition SurveyDataProductApplication_criticality_rating :: rating_column where
  "SurveyDataProductApplication_criticality_rating =
     \<lparr>column_name = ''criticality_rating'',
      check_constraint = And (Ge ''criticality_rating'' 0) (Le ''criticality_rating'' 100),
      nullable = False\<rparr>"

definition SurveyDataProductApplication_performance_rating :: rating_column where
  "SurveyDataProductApplication_performance_rating =
     \<lparr>column_name = ''performance_rating'',
      check_constraint = And (Ge ''performance_rating'' 0) (Le ''performance_rating'' 100),
      nullable = False\<rparr>"

definition SurveyApplicationSocietalBenefitArea_performance_rating :: rating_column where
  "SurveyApplicationSocietalBenefitArea_performance_rating =
     \<lparr>column_name = ''performance_rating'',
      check_constraint = And (Ge ''performance_rating'' 0) (Le ''performance_rating'' 100),
      nullable = False\<rparr>"

subsection \<open>Rows\<close>

text \<open>
  One record per mapped class, one field per column. A column declared
  \<open>nullable=False\<close> has the type of its values; a column that may hold
  \<open>NULL\<close> (\<open>nullable=True\<close>, or \<open>nullable\<close> left at its default as on the
  foreign keys of the three association tables) has an option type. The fields
  \<open>id\<close>, \<open>type\<close> and \<open>private\<close> carry a prime, their names being taken.
  Field names shared by several classes are written with the class name in front.
\<close>

type_synonym timestamp = nat

datatype ObservingSystemType = observational | research | other

record Survey =
  id' :: int
  title :: string
  status_id :: string
  created_by_id :: int
  created_timestamp :: timestamp
  updated_timestamp :: timestamp
  description :: "string option"
  private' :: bool

record SurveyObjectFieldMixin =
  short_name :: string
  full_name :: "string option"
  organization :: string
  funder :: string
  funding_country :: string
  website :: "string option"
  description :: "string option"
  contact_name :: string
  contact_title :: "string option"
  contact_email :: string
  tags :: string
  version :: "string option"

record SurveyObservingSystem = SurveyObjectFieldMixin +
  id' :: int
  survey_id :: int
  type' :: ObservingSystemType

record SurveyDataProduct = SurveyObjectFieldMixin +
  id' :: int
  survey_id :: int

record SurveyApplication = SurveyObjectFieldMixin +
  id' :: int
  survey_id :: int
  performance_criteria :: "string option"
  performance_rating :: int

record SurveySocietalBenefitArea =
  id' :: int
  survey_id :: int
  societal_benefit_area_id :: string

record SurveyObservingSystemDataProduct =
  id' :: int
  survey_observing_system_id :: "int option"
  survey_data_product_id :: "int option"
  criticality_rating :: int
  performance_rating :: int
  rationale :: "string option"
  needed_improvements :: "string option"

record SurveyDataProductApplication =
  id' :: int
  survey_data_product_id :: "int option"
  survey_application_id :: "int option"
  criticality_rating :: int
  performance_rating :: int
  rationale :: "string option"
  needed_improvements :: "string option"

record SurveyApplicationSocietalBenefitArea =
  id' :: int
  survey_application_id :: "int option"
  survey_societal_benefit_area_id :: "int option"
  performance_rating :: int

text \<open>The union \<open>SurveyNode\<close> of lines 639 to 644.\<close>

datatype SurveyNode =
    ObservingSystem SurveyObservingSystem
  | DataProduct SurveyDataProduct
  | Application SurveyApplication
  | SocietalBenefitArea SurveySocietalBenefitArea

text \<open>The three association classes, for code that walks edges of any variant.\<close>

datatype SurveyEdge =
    ObservingSystemDataProduct SurveyObservingSystemDataProduct
  | DataProductApplication SurveyDataProductApplication
  | ApplicationSocietalBenefitArea SurveyApplicationSocietalBenefitArea

subsection \<open>The database\<close>

text \<open>
  A database state holds the rows of each table, in insertion order; the fields are
  the \<open>__tablename__\<close>s. The tables \<open>user\<close>, \<open>status\<close>, \<open>role\<close> and the three
  reference tables of the benefit-area taxonomy are left out, and with them the
  foreign keys that point into them: those constraints only reject further rows, so
  every state the schema admits is a state of this model.
\<close>

record database =
  survey :: "Survey list"
  survey_observing_system :: "SurveyObservingSystem list"
  survey_data_product :: "SurveyDataProduct list"
  survey_application :: "SurveyApplication list"
  survey_societal_benefit_area :: "SurveySocietalBenefitArea list"
  survey_observing_system_data_product :: "SurveyObservingSystemDataProduct list"
  survey_data_product_application :: "SurveyDataProductApplication list"
  survey_application_societal_benefit_area :: "SurveyApplicationSocietalBenefitArea list"

definition empty_database :: database where
  "empty_database =
     \<lparr>survey = [], survey_observing_system = [], survey_data_product = [],
      survey_application = [], survey_societal_benefit_area = [],
      survey_observing_system_data_product = [], survey_data_product_application = [],
      survey_application_societal_benefit_area = []\<rparr>"

text \<open>What a write can be refused for: the kinds of \<open>IntegrityError\<close>.\<close>

datatype db_error =
    PrimaryKeyViolation
  | ForeignKeyViolation
  | UniqueViolation
  | CheckViolation
  | NotNullViolation
  | NoSuchRow

subsection \<open>Unique constraints and foreign keys\<close>

text \<open>
  The columns each \<open>UniqueConstraint\<close> names (lines 208, 274, 304, 350, 402, 466
  and 531), as the key of a row.
\<close>

definition SurveyObservingSystem_unique :: "SurveyObservingSystem \<Rightarrow> string \<times> int" where
  "SurveyObservingSystem_unique r = (short_name r, SurveyObservingSystem.survey_id r)"

definition SurveyDataProduct_unique :: "SurveyDataProduct \<Rightarrow> string \<times> int" where
  "SurveyDataProduct_unique r = (short_name r, SurveyDataProduct.survey_id r)"

definition SurveyApplication_unique :: "SurveyApplication \<Rightarrow> string \<times> int" where
  "SurveyApplication_unique r = (short_name r, SurveyApplication.survey_id r)"

definition SurveySocietalBenefitArea_unique :: "SurveySocietalBenefitArea \<Rightarrow> string \<times> int" where
  "SurveySocietalBenefitArea_unique r =
     (societal_benefit_area_id r, SurveySocietalBenefitArea.survey_id r)"

text \<open>
  The key columns of the association tables may hold \<open>NULL\<close>. SQL treats two
  \<open>NULL\<close>s as different in a unique constraint: a row takes part in it only when
  all its key columns are set.
\<close>

fun pair_key :: "int option \<Rightarrow> int option \<Rightarrow> (int \<times> int) option" where
  "pair_key (Some s) (Some t) = Some (s, t)"
| "pair_key s t = None"

definition SurveyObservingSystemDataProduct_unique ::
  "SurveyObservingSystemDataProduct \<Rightarrow> (int \<times> int) option" where
  "SurveyObservingSystemDataProduct_unique r =
     pair_key (survey_observing_system_id r)
       (SurveyObservingSystemDataProduct.survey_data_product_id r)"

definition SurveyDataProductApplication_unique ::
  "SurveyDataProductApplication \<Rightarrow> (int \<times> int) option" where
  "SurveyDataProductApplication_unique r =
     pair_key (SurveyDataProductApplication.survey_data_product_id r)
       (SurveyDataProductApplication.survey_application_id r)"

definition SurveyApplicationSocietalBenefitArea_unique ::
  "SurveyApplicationSocietalBenefitArea \<Rightarrow> (int \<times> int) option" where
  "SurveyApplicationSocietalBenefitArea_unique r =
     pair_key (SurveyApplicationSocietalBenefitArea.survey_application_id r)
       (survey_societal_benefit_area_id r)"

definition pair_taken :: "(int \<times> int) option \<Rightarrow> (int \<times> int) option list \<Rightarrow> bool" where
  "pair_taken k ks = (case k of None \<Rightarrow> False | Some p \<Rightarrow> Some p \<in> set ks)"

text \<open>A \<open>ForeignKey\<close> column holds \<open>NULL\<close> or the key of a row of the table it names.\<close>

definition references :: "int option \<Rightarrow> int list \<Rightarrow> bool" where
  "references fk ids = (case fk of None \<Rightarrow> True | Some i \<Rightarrow> i \<in> set ids)"

text \<open>An update writes the new row over the row that has its primary key.\<close>

definition replace_row :: "('r \<Rightarrow> int) \<Rightarrow> 'r \<Rightarrow> 'r list \<Rightarrow> 'r list" where
  "replace_row idf r rows = map (\<lambda>x. if idf x = idf r then r else x) rows"

subsection \<open>Writes\<close>

text \<open>
  What the schema does with a write. An insert is refused when the primary key is
  taken, when a foreign key names no row, when the unique constraint of the table is
  broken or when a check fails; otherwise the row is appended. An update is judged
  the same way against the other rows of the table. Deleting a node through the
  session deletes the association rows of its \<open>input_relationships\<close> and
  \<open>output_relationships\<close> with it (\<open>cascade="all, delete"\<close>).
\<close>

definition insert_Survey :: "Survey \<Rightarrow> database \<Rightarrow> db_error + database" where
  "insert_Survey r db =
     (if Survey.id' r \<in> set (map Survey.id' (survey db)) then Inl PrimaryKeyViolation
      else Inr (db\<lparr>survey := survey db @ [r]\<rparr>))"

definition update_Survey :: "Survey \<Rightarrow> database \<Rightarrow> db_error + database" where
  "update_Survey r db =
     (if Survey.id' r \<notin> set (map Survey.id' (survey db)) then Inl NoSuchRow
      else Inr (db\<lparr>survey := replace_row Survey.id' r (survey db)\<rparr>))"

text \<open>
  The four node collections of a survey have no cascade: a survey that still has
  nodes cannot be deleted.
\<close>

definition delete_Survey :: "int \<Rightarrow> database \<Rightarrow> db_error + database" where
  "delete_Survey i db =
     (if i \<notin> set (map Survey.id' (survey db)) then Inl NoSuchRow
      else if i \<in> set (map SurveyObservingSystem.survey_id (survey_observing_system db))
            \<or> i \<in> set (map SurveyDataProduct.survey_id (survey_data_product db))
            \<or> i \<in> set (map SurveyApplication.survey_id (survey_application db))
            \<or> i \<in> set (map SurveySocietalBenefitArea.survey_id (survey_societal_benefit_area db))
        then Inl ForeignKeyViolation
      else Inr (db\<lparr>survey := filter (\<lambda>x. Survey.id' x \<noteq> i) (survey db)\<rparr>))"

definition insert_SurveyObservingSystem :: "SurveyObservingSystem \<Rightarrow> database \<Rightarrow> db_error + database" where
  "insert_SurveyObservingSystem r db =
     (if SurveyObservingSystem.id' r \<in> set (map SurveyObservingSystem.id' (survey_observing_system db))
        then Inl PrimaryKeyViolation
      else if SurveyObservingSystem.survey_id r \<notin> set (map Survey.id' (survey db))
        then Inl ForeignKeyViolation
      else if SurveyObservingSystem_unique r \<in> set (map SurveyObservingSystem_unique (survey_observing_system db))
        then Inl UniqueViolation
      else Inr (db\<lparr>survey_observing_system := survey_observing_system db @ [r]\<rparr>))"

definition update_SurveyObservingSystem :: "SurveyObservingSystem \<Rightarrow> database \<Rightarrow> db_error + database" where
  "update_SurveyObservingSystem r db =
     (if SurveyObservingSystem.id' r \<notin> set (map SurveyObservingSystem.id' (survey_observing_system db))
        then Inl NoSuchRow
      else if SurveyObservingSystem.survey_id r \<notin> set (map Survey.id' (survey db))
        then Inl ForeignKeyViolation
      else if SurveyObservingSystem_unique r
                \<in> set (map SurveyObservingSystem_unique
                         (filter (\<lambda>x. SurveyObservingSystem.id' x \<noteq> SurveyObservingSystem.id' r) (survey_observing_system db)))
        then Inl UniqueViolation
      else Inr (db\<lparr>survey_observing_system := replace_row SurveyObservingSystem.id' r (survey_observing_system db)\<rparr>))"

definition delete_SurveyObservingSystem :: "int \<Rightarrow> database \<Rightarrow> db_error + database" where
  "delete_SurveyObservingSystem i db =
     (if i \<notin> set (map SurveyObservingSystem.id' (survey_observing_system db)) then Inl NoSuchRow
      else Inr (db\<lparr>survey_observing_system_data_product :=
                 filter (\<lambda>e. SurveyObservingSystemDataProduct.survey_observing_system_id e \<noteq> Some i) (survey_observing_system_data_product db),
               survey_observing_system :=
                 filter (\<lambda>x. SurveyObservingSystem.id' x \<noteq> i) (survey_observing_system db)\<rparr>))"

definition insert_SurveyDataProduct :: "SurveyDataProduct \<Rightarrow> database \<Rightarrow> db_error + database" where
  "insert_SurveyDataProduct r db =
     (if SurveyDataProduct.id' r \<in> set (map SurveyDataProduct.id' (survey_data_product db))
        then Inl PrimaryKeyViolation
      else if SurveyDataProduct.survey_id r \<notin> set (map Survey.id' (survey db))
        then Inl ForeignKeyViolation
      else if SurveyDataProduct_unique r \<in> set (map SurveyDataProduct_unique (survey_data_product db))
        then Inl UniqueViolation
      else Inr (db\<lparr>survey_data_product := survey_data_product db @ [r]\<rparr>))"

definition update_SurveyDataProduct :: "SurveyDataProduct \<Rightarrow> database \<Rightarrow> db_error + database" where
  "update_SurveyDataProduct r db =
     (if SurveyDataProduct.id' r \<notin> set (map SurveyDataProduct.id' (survey_data_product db))
        then Inl NoSuchRow
      else if SurveyDataProduct.survey_id r \<notin> set (map Survey.id' (survey db))
        then Inl ForeignKeyViolation
      else if SurveyDataProduct_unique r
                \<in> set (map SurveyDataProduct_unique
                         (filter (\<lambda>x. SurveyDataProduct.id' x \<noteq> SurveyDataProduct.id' r) (survey_data_product db)))
        then Inl UniqueViolation
      else Inr (db\<lparr>survey_data_product := replace_row SurveyDataProduct.id' r (survey_data_product db)\<rparr>))"

definition delete_SurveyDataProduct :: "int \<Rightarrow> database \<Rightarrow> db_error + database" where
  "delete_SurveyDataProduct i db =
     (if i \<notin> set (map SurveyDataProduct.id' (survey_data_product db)) then Inl NoSuchRow
      else Inr (db\<lparr>survey_observing_system_data_product :=
                 filter (\<lambda>e. SurveyObservingSystemDataProduct.survey_data_product_id e \<noteq> Some i) (survey_observing_system_data_product db),
               survey_data_product_application :=
                 filter (\<lambda>e. SurveyDataProductApplication.survey_data_product_id e \<noteq> Some i) (survey_data_product_application db),
               survey_data_product :=
                 filter (\<lambda>x. SurveyDataProduct.id' x \<noteq> i) (survey_data_product db)\<rparr>))"

definition insert_SurveyApplication :: "SurveyApplication \<Rightarrow> database \<Rightarrow> db_error + database" where
  "insert_SurveyApplication r db =
     (if SurveyApplication.id' r \<in> set (map SurveyApplication.id' (survey_application db))
        then Inl PrimaryKeyViolation
      else if SurveyApplication.survey_id r \<notin> set (map Survey.id' (survey db))
        then Inl ForeignKeyViolation
      else if SurveyApplication_unique r \<in> set (map SurveyApplication_unique (survey_application db))
        then Inl UniqueViolation
      else if \<not> accepts SurveyApplication_performance_rating (Some (SurveyApplication.performance_rating r))
        then Inl CheckViolation
      else Inr (db\<lparr>survey_application := survey_application db @ [r]\<rparr>))"

definition update_SurveyApplication :: "SurveyApplication \<Rightarrow> database \<Rightarrow> db_error + database" where
  "update_SurveyApplication r db =
     (if SurveyApplication.id' r \<notin> set (map SurveyApplication.id' (survey_application db))
        then Inl NoSuchRow
      else if SurveyApplication.survey_id r \<notin> set (map Survey.id' (survey db))
        then Inl ForeignKeyViolation
      else if SurveyApplication_unique r
                \<in> set (map SurveyApplication_unique
                         (filter (\<lambda>x. SurveyApplication.id' x \<noteq> SurveyApplication.id' r) (survey_application db)))
        then Inl UniqueViolation
      else if \<not> accepts SurveyApplication_performance_rating (Some (SurveyApplication.performance_rating r))
        then Inl CheckViolation
      else Inr (db\<lparr>survey_application := replace_row SurveyApplication.id' r (survey_application db)\<rparr>))"

definition delete_SurveyApplication :: "int \<Rightarrow> database \<Rightarrow> db_error + database" where
  "delete_SurveyApplication i db =
     (if i \<notin> set (map SurveyApplication.id' (survey_application db)) then Inl NoSuchRow
      else Inr (db\<lparr>survey_data_product_application :=
                 filter (\<lambda>e. SurveyDataProductApplication.survey_application_id e \<noteq> Some i) (survey_data_product_application db),
               survey_application_societal_benefit_area :=
                 filter (\<lambda>e. SurveyApplicationSocietalBenefitArea.survey_application_id e \<noteq> Some i) (survey_application_societal_benefit_area db),
               survey_application :=
                 filter (\<lambda>x. SurveyApplication.id' x \<noteq> i) (survey_application db)\<rparr>))"

definition insert_SurveySocietalBenefitArea :: "SurveySocietalBenefitArea \<Rightarrow> database \<Rightarrow> db_error + database" where
  "insert_SurveySocietalBenefitArea r db =
     (if SurveySocietalBenefitArea.id' r \<in> set (map SurveySocietalBenefitArea.id' (survey_societal_benefit_area db))
        then Inl PrimaryKeyViolation
      else if SurveySocietalBenefitArea.survey_id r \<notin> set (map Survey.id' (survey db))
        then Inl ForeignKeyViolation
      else if SurveySocietalBenefitArea_unique r \<in> set (map SurveySocietalBenefitArea_unique (survey_societal_benefit_area db))
        then Inl UniqueViolation
      else Inr (db\<lparr>survey_societal_benefit_area := survey_societal_benefit_area db @ [r]\<rparr>))"

definition update_SurveySocietalBenefitArea :: "SurveySocietalBenefitArea \<Rightarrow> database \<Rightarrow> db_error + database" where
  "update_SurveySocietalBenefitArea r db =
     (if SurveySocietalBenefitArea.id' r \<notin> set (map SurveySocietalBenefitArea.id' (survey_societal_benefit_area db))
        then Inl NoSuchRow
      else if SurveySocietalBenefitArea.survey_id r \<notin> set (map Survey.id' (survey db))
        then Inl ForeignKeyViolation
      else if SurveySocietalBenefitArea_unique r
                \<in> set (map SurveySocietalBenefitArea_unique
                         (filter (\<lambda>x. SurveySocietalBenefitArea.id' x \<noteq> SurveySocietalBenefitArea.id' r) (survey_societal_benefit_area db)))
        then Inl UniqueViolation
      else Inr (db\<lparr>survey_societal_benefit_area := replace_row SurveySocietalBenefitArea.id' r (survey_societal_benefit_area db)\<rparr>))"

definition delete_SurveySocietalBenefitArea :: "int \<Rightarrow> database \<Rightarrow> db_error + database" where
  "delete_SurveySocietalBenefitArea i db =
     (if i \<notin> set (map SurveySocietalBenefitArea.id' (survey_societal_benefit_area db)) then Inl NoSuchRow
      else Inr (db\<lparr>survey_application_societal_benefit_area :=
                 filter (\<lambda>e. SurveyApplicationSocietalBenefitArea.survey_societal_benefit_area_id e \<noteq> Some i) (survey_application_societal_benefit_area db),
               survey_societal_benefit_area :=
                 filter (\<lambda>x. SurveySocietalBenefitArea.id' x \<noteq> i) (survey_societal_benefit_area db)\<rparr>))"

definition insert_SurveyObservingSystemDataProduct ::
  "SurveyObservingSystemDataProduct \<Rightarrow> database \<Rightarrow> db_error + database" where
  "insert_SurveyObservingSystemDataProduct r db =
     (if SurveyObservingSystemDataProduct.id' r \<in> set (map SurveyObservingSystemDataProduct.id' (survey_observing_system_data_product db))
        then Inl PrimaryKeyViolation
      else if \<not> references (SurveyObservingSystemDataProduct.survey_observing_system_id r) (map SurveyObservingSystem.id' (survey_observing_system db))
        then Inl ForeignKeyViolation
      else if \<not> references (SurveyObservingSystemDataProduct.survey_data_product_id r) (map SurveyDataProduct.id' (survey_data_product db))
        then Inl ForeignKeyViolation
      else if pair_taken (SurveyObservingSystemDataProduct_unique r)
                (map SurveyObservingSystemDataProduct_unique (survey_observing_system_data_product db))
        then Inl UniqueViolation
      else if \<not> (accepts SurveyObservingSystemDataProduct_criticality_rating (Some (SurveyObservingSystemDataProduct.criticality_rating r))
              \<and> accepts SurveyObservingSystemDataProduct_performance_rating (Some (SurveyObservingSystemDataProduct.performance_rating r)))
        then Inl CheckViolation
      else Inr (db\<lparr>survey_observing_system_data_product := survey_observing_system_data_product db @ [r]\<rparr>))"

definition update_SurveyObservingSystemDataProduct ::
  "SurveyObservingSystemDataProduct \<Rightarrow> database \<Rightarrow> db_error + database" where
  "update_SurveyObservingSystemDataProduct r db =
     (if SurveyObservingSystemDataProduct.id' r \<notin> set (map SurveyObservingSystemDataProduct.id' (survey_observing_system_data_product db))
        then Inl NoSuchRow
      else if \<not> references (SurveyObservingSystemDataProduct.survey_observing_system_id r) (map SurveyObservingSystem.id' (survey_observing_system db))
        then Inl ForeignKeyViolation
      else if \<not> references (SurveyObservingSystemDataProduct.survey_data_product_id r) (map SurveyDataProduct.id' (survey_data_product db))
        then Inl ForeignKeyViolation
      else if pair_taken (SurveyObservingSystemDataProduct_unique r)
                (map SurveyObservingSystemDataProduct_unique (filter (\<lambda>x. SurveyObservingSystemDataProduct.id' x \<noteq> SurveyObservingSystemDataProduct.id' r) (survey_observing_system_data_product db)))
        then Inl UniqueViolation
      else if \<not> (accepts SurveyObservingSystemDataProduct_criticality_rating (Some (SurveyObservingSystemDataProduct.criticality_rating r))
              \<and> accepts SurveyObservingSystemDataProduct_performance_rating (Some (SurveyObservingSystemDataProduct.performance_rating r)))
        then Inl CheckViolation
      else Inr (db\<lparr>survey_observing_system_data_product :=
                 replace_row SurveyObservingSystemDataProduct.id' r (survey_observing_system_data_product db)\<rparr>))"

definition delete_SurveyObservingSystemDataProduct :: "int \<Rightarrow> database \<Rightarrow> db_error + database" where
  "delete_SurveyObservingSystemDataProduct i db =
     (if i \<notin> set (map SurveyObservingSystemDataProduct.id' (survey_observing_system_data_product db)) then Inl NoSuchRow
      else Inr (db\<lparr>survey_observing_system_data_product :=
                 filter (\<lambda>x. SurveyObservingSystemDataProduct.id' x \<noteq> i) (survey_observing_system_data_product db)\<rparr>))"

definition insert_SurveyDataProductApplication ::
  "SurveyDataProductApplication \<Rightarrow> database \<Rightarrow> db_error + database" where
  "insert_SurveyDataProductApplication r db =
     (if SurveyDataProductApplication.id' r \<in> set (map SurveyDataProductApplication.id' (survey_data_product_application db))
        then Inl PrimaryKeyViolation
      else if \<not> references (SurveyDataProductApplication.survey_data_product_id r) (map SurveyDataProduct.id' (survey_data_product db))
        then Inl ForeignKeyViolation
      else if \<not> references (SurveyDataProductApplication.survey_application_id r) (map SurveyApplication.id' (survey_application db))
        then Inl ForeignKeyViolation
      else if pair_taken (SurveyDataProductApplication_unique r)
                (map SurveyDataProductApplication_unique (survey_data_product_application db))
        then Inl UniqueViolation
      else if \<not> (accepts SurveyDataProductApplication_criticality_rating (Some (SurveyDataProductApplication.criticality_rating r))
              \<and> accepts SurveyDataProductApplication_performance_rating (Some (SurveyDataProductApplication.performance_rating r)))
        then Inl CheckViolation
      else Inr (db\<lparr>survey_data_product_application := survey_data_product_application db @ [r]\<rparr>))"

definition update_SurveyDataProductApplication ::
  "SurveyDataProductApplication \<Rightarrow> database \<Rightarrow> db_error + database" where
  "update_SurveyDataProductApplication r db =
     (if SurveyDataProductApplication.id' r \<notin> set (map SurveyDataProductApplication.id' (survey_data_product_application db))
        then Inl NoSuchRow
      else if \<not> references (SurveyDataProductApplication.survey_data_product_id r) (map SurveyDataProduct.id' (survey_data_product db))
        then Inl ForeignKeyViolation
      else if \<not> references (SurveyDataProductApplication.survey_application_id r) (map SurveyApplication.id' (survey_application db))
        then Inl ForeignKeyViolation
      else if pair_taken (SurveyDataProductApplication_unique r)
                (map SurveyDataProductApplication_unique (filter (\<lambda>x. SurveyDataProductApplication.id' x \<noteq> SurveyDataProductApplication.id' r) (survey_data_product_application db)))
        then Inl UniqueViolation
      else if \<not> (accepts SurveyDataProductApplication_criticality_rating (Some (SurveyDataProductApplication.criticality_rating r))
              \<and> accepts SurveyDataProductApplication_performance_rating (Some (SurveyDataProductApplication.performance_rating r)))
        then Inl CheckViolation
      else Inr (db\<lparr>survey_data_product_application :=
                 replace_row SurveyDataProductApplication.id' r (survey_data_product_application db)\<rparr>))"

definition delete_SurveyDataProductApplication :: "int \<Rightarrow> database \<Rightarrow> db_error + database" where
  "delete_SurveyDataProductApplication i db =
     (if i \<notin> set (map SurveyDataProductApplication.id' (survey_data_product_application db)) then Inl NoSuchRow
      else Inr (db\<lparr>survey_data_product_application :=
                 filter (\<lambda>x. SurveyDataProductApplication.id' x \<noteq> i) (survey_data_product_application db)\<rparr>))"

definition insert_SurveyApplicationSocietalBenefitArea ::
  "SurveyApplicationSocietalBenefitArea \<Rightarrow> database \<Rightarrow> db_error + database" where
  "insert_SurveyApplicationSocietalBenefitArea r db =
     (if SurveyApplicationSocietalBenefitArea.id' r \<in> set (map SurveyApplicationSocietalBenefitArea.id' (survey_application_societal_benefit_area db))
        then Inl PrimaryKeyViolation
      else if \<not> references (SurveyApplicationSocietalBenefitArea.survey_application_id r) (map SurveyApplication.id' (survey_application db))
        then Inl ForeignKeyViolation
      else if \<not> references (SurveyApplicationSocietalBenefitArea.survey_societal_benefit_area_id r) (map SurveySocietalBenefitArea.id' (survey_societal_benefit_area db))
        then Inl ForeignKeyViolation
      else if pair_taken (SurveyApplicationSocietalBenefitArea_unique r)
                (map SurveyApplicationSocietalBenefitArea_unique (survey_application_societal_benefit_area db))
        then Inl UniqueViolation
      else if \<not> (accepts SurveyApplicationSocietalBenefitArea_performance_rating (Some (SurveyApplicationSocietalBenefitArea.performance_rating r)))
        then Inl CheckViolation
      else Inr (db\<lparr>survey_application_societal_benefit_area := survey_application_societal_benefit_area db @ [r]\<rparr>))"

definition update_SurveyApplicationSocietalBenefitArea ::
  "SurveyApplicationSocietalBenefitArea \<Rightarrow> database \<Rightarrow> db_error + database" where
  "update_SurveyApplicationSocietalBenefitArea r db =
     (if SurveyApplicationSocietalBenefitArea.id' r \<notin> set (map SurveyApplicationSocietalBenefitArea.id' (survey_application_societal_benefit_area db))
        then Inl NoSuchRow
      else if \<not> references (SurveyApplicationSocietalBenefitArea.survey_application_id r) (map SurveyApplication.id' (survey_application db))
        then Inl ForeignKeyViolation
      else if \<not> references (SurveyApplicationSocietalBenefitArea.survey_societal_benefit_area_id r) (map SurveySocietalBenefitArea.id' (survey_societal_benefit_area db))
        then Inl ForeignKeyViolation
      else if pair_taken (SurveyApplicationSocietalBenefitArea_unique r)
                (map SurveyApplicationSocietalBenefitArea_unique (filter (\<lambda>x. SurveyApplicationSocietalBenefitArea.id' x \<noteq> SurveyApplicationSocietalBenefitArea.id' r) (survey_application_societal_benefit_area db)))
        then Inl UniqueViolation
      else if \<not> (accepts SurveyApplicationSocietalBenefitArea_performance_rating (Some (SurveyApplicationSocietalBenefitArea.performance_rating r)))
        then Inl CheckViolation
      else Inr (db\<lparr>survey_application_societal_benefit_area :=
                 replace_row SurveyApplicationSocietalBenefitArea.id' r (survey_application_societal_benefit_area db)\<rparr>))"

definition delete_SurveyApplicationSocietalBenefitArea :: "int \<Rightarrow> database \<Rightarrow> db_error + database" where
  "delete_SurveyApplicationSocietalBenefitArea i db =
     (if i \<notin> set (map SurveyApplicationSocietalBenefitArea.id' (survey_application_societal_benefit_area db)) then Inl NoSuchRow
      else Inr (db\<lparr>survey_application_societal_benefit_area :=
                 filter (\<lambda>x. SurveyApplicationSocietalBenefitArea.id' x \<noteq> i) (survey_application_societal_benefit_area db)\<rparr>))"

text \<open>The writes, and the states a sequence of writes leads to from the empty database.\<close>

datatype db_op =
    Insert_Survey Survey
  | Update_Survey Survey
  | Delete_Survey int
  | Insert_SurveyObservingSystem SurveyObservingSystem
  | Update_SurveyObservingSystem SurveyObservingSystem
  | Delete_SurveyObservingSystem int
  | Insert_SurveyDataProduct SurveyDataProduct
  | Update_SurveyDataProduct SurveyDataProduct
  | Delete_SurveyDataProduct int
  | Insert_SurveyApplication SurveyApplication
  | Update_SurveyApplication SurveyApplication
  | Delete_SurveyApplication int
  | Insert_SurveySocietalBenefitArea SurveySocietalBenefitArea
  | Update_SurveySocietalBenefitArea SurveySocietalBenefitArea
  | Delete_SurveySocietalBenefitArea int
  | Insert_SurveyObservingSystemDataProduct SurveyObservingSystemDataProduct
  | Update_SurveyObservingSystemDataProduct SurveyObservingSystemDataProduct
  | Delete_SurveyObservingSystemDataProduct int
  | Insert_SurveyDataProductApplication SurveyDataProductApplication
  | Update_SurveyDataProductApplication SurveyDataProductApplication
  | Delete_SurveyDataProductApplication int
  | Insert_SurveyApplicationSocietalBenefitArea SurveyApplicationSocietalBenefitArea
  | Update_SurveyApplicationSocietalBenefitArea SurveyApplicationSocietalBenefitArea
  | Delete_SurveyApplicationSocietalBenefitArea int

fun apply_op :: "db_op \<Rightarrow> database \<Rightarrow> db_error + database" where
  "apply_op (Insert_Survey r) db = insert_Survey r db"
| "apply_op (Update_Survey r) db = update_Survey r db"
| "apply_op (Delete_Survey i) db = delete_Survey i db"
| "apply_op (Insert_SurveyObservingSystem r) db = insert_SurveyObservingSystem r db"
| "apply_op (Update_SurveyObservingSystem r) db = update_SurveyObservingSystem r db"
| "apply_op (Delete_SurveyObservingSystem i) db = delete_SurveyObservingSystem i db"
| "apply_op (Insert_SurveyDataProduct r) db = insert_SurveyDataProduct r db"
| "apply_op (Update_SurveyDataProduct r) db = update_SurveyDataProduct r db"
| "apply_op (Delete_SurveyDataProduct i) db = delete_SurveyDataProduct i db"
| "apply_op (Insert_SurveyApplication r) db = insert_SurveyApplication r db"
| "apply_op (Update_SurveyApplication r) db = update_SurveyApplication r db"
| "apply_op (Delete_SurveyApplication i) db = delete_SurveyApplication i db"
| "apply_op (Insert_SurveySocietalBenefitArea r) db = insert_SurveySocietalBenefitArea r db"
| "apply_op (Update_SurveySocietalBenefitArea r) db = update_SurveySocietalBenefitArea r db"
| "apply_op (Delete_SurveySocietalBenefitArea i) db = delete_SurveySocietalBenefitArea i db"
| "apply_op (Insert_SurveyObservingSystemDataProduct r) db = insert_SurveyObservingSystemDataProduct r db"
| "apply_op (Update_SurveyObservingSystemDataProduct r) db = update_SurveyObservingSystemDataProduct r db"
| "apply_op (Delete_SurveyObservingSystemDataProduct i) db = delete_SurveyObservingSystemDataProduct i db"
| "apply_op (Insert_SurveyDataProductApplication r) db = insert_SurveyDataProductApplication r db"
| "apply_op (Update_SurveyDataProductApplication r) db = update_SurveyDataProductApplication r db"
| "apply_op (Delete_SurveyDataProductApplication i) db = delete_SurveyDataProductApplication i db"
| "apply_op (Insert_SurveyApplicationSocietalBenefitArea r) db = insert_SurveyApplicationSocietalBenefitArea r db"
| "apply_op (Update_SurveyApplicationSocietalBenefitArea r) db = update_SurveyApplicationSocietalBenefitArea r db"
| "apply_op (Delete_SurveyApplicationSocietalBenefitArea i) db = delete_SurveyApplicationSocietalBenefitArea i db"

text \<open>A refused write raises and leaves the database as it was.\<close>

definition commit :: "database \<Rightarrow> db_op \<Rightarrow> database" where
  "commit db op = (case apply_op op db of Inl e \<Rightarrow> db | Inr db' \<Rightarrow> db')"

definition run :: "db_op list \<Rightarrow> database" where
  "run ops = foldl commit empty_database ops"
subsection \<open>Invariants of the tables\<close>

text \<open>Primary keys: no two rows of a table share an \<open>id\<close>.\<close>

definition ids_unique :: "database \<Rightarrow> bool" where
  "ids_unique db =
     (distinct (map Survey.id' (survey db))
      \<and> distinct (map SurveyObservingSystem.id' (survey_observing_system db))
      \<and> distinct (map SurveyDataProduct.id' (survey_data_product db))
      \<and> distinct (map SurveyApplication.id' (survey_application db))
      \<and> distinct (map SurveySocietalBenefitArea.id' (survey_societal_benefit_area db))
      \<and> distinct (map SurveyObservingSystemDataProduct.id'
                    (survey_observing_system_data_product db))
      \<and> distinct (map SurveyDataProductApplication.id' (survey_data_product_application db))
      \<and> distinct (map SurveyApplicationSocietalBenefitArea.id'
                    (survey_application_societal_benefit_area db)))"

text \<open>The unique constraints of the four node tables.\<close>

definition node_keys_unique :: "database \<Rightarrow> bool" where
  "node_keys_unique db =
     (distinct (map SurveyObservingSystem_unique (survey_observing_system db))
      \<and> distinct (map SurveyDataProduct_unique (survey_data_product db))
      \<and> distinct (map SurveyApplication_unique (survey_application db))
      \<and> distinct (map SurveySocietalBenefitArea_unique (survey_societal_benefit_area db)))"

text \<open>
  The unique constraints of the three association tables, over the rows whose two
  key columns are set.
\<close>

definition set_pairs :: "('r \<Rightarrow> (int \<times> int) option) \<Rightarrow> 'r list \<Rightarrow> (int \<times> int) option list" where
  "set_pairs key rows = filter (\<lambda>k. k \<noteq> None) (map key rows)"

definition edge_pairs_unique :: "database \<Rightarrow> bool" where
  "edge_pairs_unique db =
     (distinct (set_pairs SurveyObservingSystemDataProduct_unique
                  (survey_observing_system_data_product db))
      \<and> distinct (set_pairs SurveyDataProductApplication_unique
                    (survey_data_product_application db))
      \<and> distinct (set_pairs SurveyApplicationSocietalBenefitArea_unique
                    (survey_application_societal_benefit_area db)))"

text \<open>The foreign keys of the three association tables, one column at a time.\<close>

definition edge_foreign_keys :: "database \<Rightarrow> bool" where
  "edge_foreign_keys db =
     (list_all (\<lambda>e. references (survey_observing_system_id e)
                      (map SurveyObservingSystem.id' (survey_observing_system db)))
        (survey_observing_system_data_product db)
      \<and> list_all (\<lambda>e. references (SurveyObservingSystemDataProduct.survey_data_product_id e)
                      (map SurveyDataProduct.id' (survey_data_product db)))
        (survey_observing_system_data_product db)
      \<and> list_all (\<lambda>e. references (SurveyDataProductApplication.survey_data_product_id e)
                      (map SurveyDataProduct.id' (survey_data_product db)))
        (survey_data_product_application db)
      \<and> list_all (\<lambda>e. references (SurveyDataProductApplication.survey_application_id e)
                      (map SurveyApplication.id' (survey_application db)))
        (survey_data_product_application db)
      \<and> list_all (\<lambda>e. references (SurveyApplicationSocietalBenefitArea.survey_application_id e)
                      (map SurveyApplication.id' (survey_application db)))
        (survey_application_societal_benefit_area db)
      \<and> list_all (\<lambda>e. references (survey_societal_benefit_area_id e)
                      (map SurveySocietalBenefitArea.id' (survey_societal_benefit_area db)))
        (survey_application_societal_benefit_area db))"

text \<open>The foreign key of the four node tables: the survey of a node is a row.\<close>

definition node_foreign_keys :: "database \<Rightarrow> bool" where
  "node_foreign_keys db =
     (list_all (\<lambda>n. SurveyObservingSystem.survey_id n \<in> set (map Survey.id' (survey db)))
        (survey_observing_system db)
      \<and> list_all (\<lambda>n. SurveyDataProduct.survey_id n \<in> set (map Survey.id' (survey db)))
        (survey_data_product db)
      \<and> list_all (\<lambda>n. SurveyApplication.survey_id n \<in> set (map Survey.id' (survey db)))
        (survey_application db)
      \<and> list_all (\<lambda>n. SurveySocietalBenefitArea.survey_id n \<in> set (map Survey.id' (survey db)))
        (survey_societal_benefit_area db))"

text \<open>The ranges of the six rating columns, over the rows that are stored.\<close>

definition ratings_in_range :: "database \<Rightarrow> bool" where
  "ratings_in_range db =
     (list_all (\<lambda>a. 0 < SurveyApplication.performance_rating a
                  \<and> SurveyApplication.performance_rating a \<le> 100)
        (survey_application db)
      \<and> list_all (\<lambda>e. 0 \<le> SurveyObservingSystemDataProduct.criticality_rating e
                  \<and> SurveyObservingSystemDataProduct.criticality_rating e \<le> 100
                  \<and> 0 \<le> SurveyObservingSystemDataProduct.performance_rating e
                  \<and> SurveyObservingSystemDataProduct.performance_rating e \<le> 100)
        (survey_observing_system_data_product db)
      \<and> list_all (\<lambda>e. 0 \<le> SurveyDataProductApplication.criticality_rating e
                  \<and> SurveyDataProductApplication.criticality_rating e \<le> 100
                  \<and> 0 \<le> SurveyDataProductApplication.performance_rating e
                  \<and> SurveyDataProductApplication.performance_rating e \<le> 100)
        (survey_data_product_application db)
      \<and> list_all (\<lambda>e. 0 \<le> SurveyApplicationSocietalBenefitArea.performance_rating e
                  \<and> SurveyApplicationSocietalBenefitArea.performance_rating e \<le> 100)
        (survey_application_societal_benefit_area db))"

definition consistent :: "database \<Rightarrow> bool" where
  "consistent db =
     (ids_unique db \<and> node_keys_unique db \<and> edge_pairs_unique db \<and> edge_foreign_keys db
      \<and> node_foreign_keys db \<and> ratings_in_range db)"

subsection \<open>Relationships and the \<open>source\<close>/\<open>target\<close> properties\<close>

text \<open>
  A many-to-one \<open>relationship\<close> of an association row is the row its foreign key
  names, or \<open>None\<close> when the key is \<open>NULL\<close> or names nothing.
\<close>

definition get_row :: "('r \<Rightarrow> int) \<Rightarrow> 'r list \<Rightarrow> int option \<Rightarrow> 'r option" where
  "get_row idf rows fk = (case fk of None \<Rightarrow> None | Some i \<Rightarrow> find (\<lambda>r. idf r = i) rows)"

definition SurveyObservingSystemDataProduct_observing_system ::
  "database \<Rightarrow> SurveyObservingSystemDataProduct \<Rightarrow> SurveyObservingSystem option" where
  "SurveyObservingSystemDataProduct_observing_system db e =
     get_row SurveyObservingSystem.id' (survey_observing_system db)
       (survey_observing_system_id e)"

definition SurveyObservingSystemDataProduct_data_product ::
  "database \<Rightarrow> SurveyObservingSystemDataProduct \<Rightarrow> SurveyDataProduct option" where
  "SurveyObservingSystemDataProduct_data_product db e =
     get_row SurveyDataProduct.id' (survey_data_product db)
       (SurveyObservingSystemDataProduct.survey_data_product_id e)"

definition SurveyDataProductApplication_data_product ::
  "database \<Rightarrow> SurveyDataProductApplication \<Rightarrow> SurveyDataProduct option" where
  "SurveyDataProductApplication_data_product db e =
     get_row SurveyDataProduct.id' (survey_data_product db)
       (SurveyDataProductApplication.survey_data_product_id e)"

definition SurveyDataProductApplication_application ::
  "database \<Rightarrow> SurveyDataProductApplication \<Rightarrow> SurveyApplication option" where
  "SurveyDataProductApplication_application db e =
     get_row SurveyApplication.id' (survey_application db)
       (SurveyDataProductApplication.survey_application_id e)"

definition SurveyApplicationSocietalBenefitArea_application ::
  "database \<Rightarrow> SurveyApplicationSocietalBenefitArea \<Rightarrow> SurveyApplication option" where
  "SurveyApplicationSocietalBenefitArea_application db e =
     get_row SurveyApplication.id' (survey_application db)
       (SurveyApplicationSocietalBenefitArea.survey_application_id e)"

definition SurveyApplicationSocietalBenefitArea_societal_benefit_area ::
  "database \<Rightarrow> SurveyApplicationSocietalBenefitArea \<Rightarrow> SurveySocietalBenefitArea option" where
  "SurveyApplicationSocietalBenefitArea_societal_benefit_area db e =
     get_row SurveySocietalBenefitArea.id' (survey_societal_benefit_area db)
       (survey_societal_benefit_area_id e)"

text \<open>The six properties of lines 454 to 460, 519 to 525 and 576 to 582.\<close>

definition SurveyObservingSystemDataProduct_source ::
  "database \<Rightarrow> SurveyObservingSystemDataProduct \<Rightarrow> SurveyObservingSystem option" where
  "SurveyObservingSystemDataProduct_source db self =
     SurveyObservingSystemDataProduct_observing_system db self"

definition SurveyObservingSystemDataProduct_target ::
  "database \<Rightarrow> SurveyObservingSystemDataProduct \<Rightarrow> SurveyDataProduct option" where
  "SurveyObservingSystemDataProduct_target db self =
     SurveyObservingSystemDataProduct_data_product db self"

definition SurveyDataProductApplication_source ::
  "database \<Rightarrow> SurveyDataProductApplication \<Rightarrow> SurveyDataProduct option" where
  "SurveyDataProductApplication_source db self =
     SurveyDataProductApplication_data_product db self"

definition SurveyDataProductApplication_target ::
  "database \<Rightarrow> SurveyDataProductApplication \<Rightarrow> SurveyApplication option" where
  "SurveyDataProductApplication_target db self =
     SurveyDataProductApplication_application db self"

definition SurveyApplicationSocietalBenefitArea_source ::
  "database \<Rightarrow> SurveyApplicationSocietalBenefitArea \<Rightarrow> SurveyApplication option" where
  "SurveyApplicationSocietalBenefitArea_source db self =
     SurveyApplicationSocietalBenefitArea_application db self"

definition SurveyApplicationSocietalBenefitArea_target ::
  "database \<Rightarrow> SurveyApplicationSocietalBenefitArea \<Rightarrow> SurveySocietalBenefitArea option" where
  "SurveyApplicationSocietalBenefitArea_target db self =
     SurveyApplicationSocietalBenefitArea_societal_benefit_area db self"

text \<open>
  \<open>e.source\<close> and \<open>e.target\<close> on an edge of any of the three classes: Python
  finds the property of the class of \<open>e\<close>.
\<close>

fun source :: "database \<Rightarrow> SurveyEdge \<Rightarrow> SurveyNode option" where
  "source db (ObservingSystemDataProduct e) =
     map_option ObservingSystem (SurveyObservingSystemDataProduct_source db e)"
| "source db (DataProductApplication e) =
     map_option DataProduct (SurveyDataProductApplication_source db e)"
| "source db (ApplicationSocietalBenefitArea e) =
     map_option Application (SurveyApplicationSocietalBenefitArea_source db e)"

fun target :: "database \<Rightarrow> SurveyEdge \<Rightarrow> SurveyNode option" where
  "target db (ObservingSystemDataProduct e) =
     map_option DataProduct (SurveyObservingSystemDataProduct_target db e)"
| "target db (DataProductApplication e) =
     map_option Application (SurveyDataProductApplication_target db e)"
| "target db (ApplicationSocietalBenefitArea e) =
     map_option SocietalBenefitArea (SurveyApplicationSocietalBenefitArea_target db e)"

text \<open>The class of a node and of an edge, and the columns all nodes and edges share.\<close>

fun node_class :: "SurveyNode \<Rightarrow> model_class" where
  "node_class (ObservingSystem n) = SurveyObservingSystem_class"
| "node_class (DataProduct n) = SurveyDataProduct_class"
| "node_class (Application n) = SurveyApplication_class"
| "node_class (SocietalBenefitArea n) = SurveySocietalBenefitArea_class"

fun edge_class :: "SurveyEdge \<Rightarrow> model_class" where
  "edge_class (ObservingSystemDataProduct e) = SurveyObservingSystemDataProduct_class"
| "edge_class (DataProductApplication e) = SurveyDataProductApplication_class"
| "edge_class (ApplicationSocietalBenefitArea e) = SurveyApplicationSocietalBenefitArea_class"

fun node_id :: "SurveyNode \<Rightarrow> int" where
  "node_id (ObservingSystem n) = SurveyObservingSystem.id' n"
| "node_id (DataProduct n) = SurveyDataProduct.id' n"
| "node_id (Application n) = SurveyApplication.id' n"
| "node_id (SocietalBenefitArea n) = SurveySocietalBenefitArea.id' n"

fun node_survey_id :: "SurveyNode \<Rightarrow> int" where
  "node_survey_id (ObservingSystem n) = SurveyObservingSystem.survey_id n"
| "node_survey_id (DataProduct n) = SurveyDataProduct.survey_id n"
| "node_survey_id (Application n) = SurveyApplication.survey_id n"
| "node_survey_id (SocietalBenefitArea n) = SurveySocietalBenefitArea.survey_id n"

fun source_id :: "SurveyEdge \<Rightarrow> int option" where
  "source_id (ObservingSystemDataProduct e) = survey_observing_system_id e"
| "source_id (DataProductApplication e) =
     SurveyDataProductApplication.survey_data_product_id e"
| "source_id (ApplicationSocietalBenefitArea e) =
     SurveyApplicationSocietalBenefitArea.survey_application_id e"

fun target_id :: "SurveyEdge \<Rightarrow> int option" where
  "target_id (ObservingSystemDataProduct e) =
     SurveyObservingSystemDataProduct.survey_data_product_id e"
| "target_id (DataProductApplication e) =
     SurveyDataProductApplication.survey_application_id e"
| "target_id (ApplicationSocietalBenefitArea e) = survey_societal_benefit_area_id e"

fun edge_performance_rating :: "SurveyEdge \<Rightarrow> int" where
  "edge_performance_rating (ObservingSystemDataProduct e) =
     SurveyObservingSystemDataProduct.performance_rating e"
| "edge_performance_rating (DataProductApplication e) =
     SurveyDataProductApplication.performance_rating e"
| "edge_performance_rating (ApplicationSocietalBenefitArea e) =
     SurveyApplicationSocietalBenefitArea.performance_rating e"

text \<open>
  \<open>node.short_name\<close> on a node of the union: the three classes that inherit
  \<open>SurveyObjectFieldMixin\<close> have the column; \<open>SurveySocietalBenefitArea\<close> does
  not inherit it and declares no \<open>short_name\<close>, so the attribute access raises.
\<close>

fun short_name_of :: "SurveyNode \<Rightarrow> py_error + string" where
  "short_name_of (ObservingSystem n) = Inr (short_name n)"
| "short_name_of (DataProduct n) = Inr (short_name n)"
| "short_name_of (Application n) = Inr (short_name n)"
| "short_name_of (SocietalBenefitArea n) = Inl (AttributeError ''short_name'')"

text \<open>The edges and the nodes of a database, of every variant.\<close>

definition edges :: "database \<Rightarrow> SurveyEdge list" where
  "edges db =
     map ObservingSystemDataProduct (survey_observing_system_data_product db)
     @ map DataProductApplication (survey_data_product_application db)
     @ map ApplicationSocietalBenefitArea (survey_application_societal_benefit_area db)"

definition nodes :: "database \<Rightarrow> SurveyNode list" where
  "nodes db =
     map ObservingSystem (survey_observing_system db)
     @ map DataProduct (survey_data_product db)
     @ map Application (survey_application db)
     @ map SocietalBenefitArea (survey_societal_benefit_area db)"

subsection \<open>The properties the constraints are meant to give\<close>

text \<open>
  Within one survey, no two different rows carry the same name: \<open>sid\<close> reads the
  survey of a row, \<open>name\<close> the column that must differ.
\<close>

definition unique_within_survey :: "('r \<Rightarrow> int) \<Rightarrow> ('r \<Rightarrow> string) \<Rightarrow> 'r list \<Rightarrow> bool" where
  "unique_within_survey sid name rows =
     (\<forall>x \<in> set rows. \<forall>y \<in> set rows. x \<noteq> y \<and> sid x = sid y \<longrightarrow> name x \<noteq> name y)"

text \<open>
  No two different rows connect the same source to the same target: \<open>src\<close> and
  \<open>tgt\<close> read the two foreign keys of a row.
\<close>

definition no_parallel_edges ::
  "('r \<Rightarrow> int option) \<Rightarrow> ('r \<Rightarrow> int option) \<Rightarrow> 'r list \<Rightarrow> bool" where
  "no_parallel_edges src tgt rows =
     (\<forall>x \<in> set rows. \<forall>y \<in> set rows. \<forall>s t.
        src x = Some s \<and> tgt x = Some t \<and> src y = Some s \<and> tgt y = Some t \<longrightarrow> x = y)"

text \<open>
  The endpoints of an edge exist: a foreign key that is set leads, through
  \<open>source\<close> or \<open>target\<close>, to a stored node with that \<open>id\<close>.
\<close>

definition endpoint_exists :: "database \<Rightarrow> int option \<Rightarrow> SurveyNode option \<Rightarrow> bool" where
  "endpoint_exists db fk end =
     (case fk of
        None \<Rightarrow> end = None
      | Some i \<Rightarrow> (case end of
                    None \<Rightarrow> False
                  | Some n \<Rightarrow> n \<in> set (nodes db) \<and> node_id n = i
                      \<and> node_survey_id n \<in> set (map Survey.id' (survey db))))"

definition endpoints_exist :: "database \<Rightarrow> bool" where
  "endpoints_exist db =
     list_all (\<lambda>e. endpoint_exists db (source_id e) (source db e)
                  \<and> endpoint_exists db (target_id e) (target db e)) (edges db)"

section \<open>Creating a survey: the column defaults of \<open>Survey\<close>\<close>

text \<open>
  The class \<open>User\<close> of lines 86 to 130. \<open>current_user\<close> is the logged-in user,
  or the anonymous user, which has no \<open>id\<close> (\<open>None\<close> below).
\<close>

record User =
  id' :: int
  email :: string
  name :: string
  orcid :: "string option"
  role_id :: string
  biography :: "string option"
  affiliation :: "string option"

text \<open>
  What the defaults read from outside \<open>tables.py\<close>: the list \<open>STATUSES\<close> of
  \<open>constants/status.py\<close>, \<open>current_user\<close> of \<open>flask_login\<close>, and the clock.
  \<open>time_at env k\<close> is what the \<open>k\<close>-th call of \<open>datetime.now\<close> returns, and
  \<open>now_calls\<close> counts the calls made so far.
\<close>

record environment =
  STATUSES :: "string list"
  current_user :: "User option"
  time_at :: "nat \<Rightarrow> timestamp"
  now_calls :: nat

definition datetime_now :: "environment \<Rightarrow> timestamp \<times> environment" where
  "datetime_now env = (time_at env (now_calls env), env\<lparr>now_calls := Suc (now_calls env)\<rparr>)"

text \<open>
  The values a caller gives when it creates a \<open>Survey\<close>: \<open>None\<close> is a column the
  caller did not set. The session leaves such a column out of the \<open>INSERT\<close>, and the
  column's \<open>default\<close> fills it.
\<close>

record Survey_values =
  id' :: "int option"
  title :: "string option"
  status_id :: "string option"
  created_by_id :: "int option"
  created_timestamp :: "timestamp option"
  updated_timestamp :: "timestamp option"
  description :: "string option"
  private' :: "bool option"

text \<open>
  The defaults of lines 149, 156, 163, 168 and 179. \<open>STATUSES[0]\<close> is evaluated when
  the class is defined and raises \<open>IndexError\<close> on an empty list; the \<open>lambda\<close> of
  \<open>created_by_id\<close> and \<open>datetime.now\<close> are called at each insert that needs them.
\<close>

definition status_id_default :: "environment \<Rightarrow> py_error + string" where
  "status_id_default env = (case STATUSES env of [] \<Rightarrow> Inl IndexError | s # rest \<Rightarrow> Inr s)"

definition created_by_id_default :: "environment \<Rightarrow> py_error + int" where
  "created_by_id_default env =
     (case current_user env of
        None \<Rightarrow> Inl (AttributeError ''id'')
      | Some u \<Rightarrow> Inr (User.id' u))"

definition private_default :: bool where
  "private_default = False"

datatype failure = Raised py_error | Refused db_error

text \<open>
  The row an insert of the given values writes: the columns are filled in the order
  of the table (\<open>status_id\<close>, \<open>created_by_id\<close>, \<open>created_timestamp\<close>,
  \<open>updated_timestamp\<close>, \<open>private\<close>); \<open>title\<close> has no default and must not be
  \<open>NULL\<close>; \<open>next_id\<close> is the value the sequence of \<open>id\<close> gives when the caller
  sets none.
\<close>

definition new_Survey ::
  "environment \<Rightarrow> int \<Rightarrow> Survey_values \<Rightarrow> failure + Survey \<times> environment" where
  "new_Survey env next_id given =
     (case (case Survey_values.status_id given of
              Some s \<Rightarrow> Inr s
            | None \<Rightarrow> status_id_default env) of
        Inl e \<Rightarrow> Inl (Raised e)
      | Inr status \<Rightarrow>
     (case (case Survey_values.created_by_id given of
              Some u \<Rightarrow> Inr u
            | None \<Rightarrow> created_by_id_default env) of
        Inl e \<Rightarrow> Inl (Raised e)
      | Inr creator \<Rightarrow>
     (let (created, env1) =
            (case Survey_values.created_timestamp given of
               Some t \<Rightarrow> (t, env)
             | None \<Rightarrow> datetime_now env);
          (updated, env2) =
            (case Survey_values.updated_timestamp given of
               Some t \<Rightarrow> (t, env1)
             | None \<Rightarrow> datetime_now env1)
      in case Survey_values.title given of
           None \<Rightarrow> Inl (Refused NotNullViolation)
         | Some t \<Rightarrow>
             Inr (\<lparr>Survey.id' = (case Survey_values.id' given of Some i \<Rightarrow> i | None \<Rightarrow> next_id),
                   Survey.title = t,
                   Survey.status_id = status,
                   Survey.created_by_id = creator,
                   Survey.created_timestamp = created,
                   Survey.updated_timestamp = updated,
                   Survey.description = Survey_values.description given,
                   Survey.private' =
                     (case Survey_values.private' given of
                        Some p \<Rightarrow> p
                      | None \<Rightarrow> private_default)\<rparr>,
                  env2))))"

text \<open>A survey created with nothing but a title.\<close>

definition only_title :: "string \<Rightarrow> Survey_values" where
  "only_title t =
     \<lparr>Survey_values.id' = None, Survey_values.title = Some t,
      Survey_values.status_id = None, Survey_values.created_by_id = None,
      Survey_values.created_timestamp = None, Survey_values.updated_timestamp = None,
      Survey_values.description = None, Survey_values.private' = None\<rparr>"

section \<open>The routes of \<open>routes/project/__init__.py\<close>\<close>

text \<open>
  What a request is answered with: the answer of the login manager to a request that
  is not logged in (\<open>login_manager.unauthorized()\<close>: status 401, or a redirect to
  the login view), \<open>abort(404)\<close>, an exception that leaves the view (status 500), or
  the page \<open>render_template\<close> returns.
\<close>

datatype http_response =
    Unauthorized
  | NotFound
  | InternalServerError py_error
  | Page string

text \<open>
  What the three views call outside the file. \<open>session_get\<close> is
  \<open>db.session.get(Survey, ident)\<close>, the row with that primary key or \<open>None\<close>.
  \<open>full_sankey\<close> is the function \<open>sankey\<close> the file imports from
  \<open>util/full_sankey.py\<close>, taking a response of type \<open>'r\<close>; \<open>render_template\<close> is
  Flask's. The arguments of a page are its template, the project, the response (only
  \<open>view_project\<close> passes it) and the series.
\<close>

record ('r, 's) app =
  is_authenticated :: bool
  session_get :: "string \<Rightarrow> Survey option"
  full_sankey :: "'r option \<Rightarrow> py_error + 's list"
  render_template :: "string \<Rightarrow> Survey \<Rightarrow> 'r option option \<Rightarrow> 's list \<Rightarrow> string"

text \<open>
  The attribute \<open>project.response\<close> of a \<open>Survey\<close>. The class (lines 133 to 203 of
  \<open>tables.py\<close>) declares the columns \<open>id\<close>, \<open>title\<close>, \<open>status_id\<close>,
  \<open>created_by_id\<close>, \<open>created_timestamp\<close>, \<open>updated_timestamp\<close>, \<open>description\<close>
  and \<open>private\<close> and the relationships \<open>created_by\<close>, \<open>status\<close>,
  \<open>observing_systems\<close>, \<open>data_products\<close>, \<open>applications\<close> and
  \<open>societal_benefit_areas\<close>; no \<open>back_populates\<close> of another class names a
  \<open>response\<close> on it. The row has no such attribute and reading it raises.
\<close>

definition Survey_response :: "Survey \<Rightarrow> py_error + 'r option" where
  "Survey_response project = Inl (AttributeError ''response'')"

text \<open>
  A view returns its answer and the identifiers it asked the session for, in order:
  the log of its fetches.
\<close>

type_synonym outcome = "http_response \<times> string list"

text \<open>\<open>db.get_or_404\<close>: one \<open>session.get\<close>, then \<open>abort(404)\<close> when it found nothing.\<close>

definition get_or_404 :: "('r, 's) app \<Rightarrow> string \<Rightarrow> http_response + Survey" where
  "get_or_404 a ident =
     (case session_get a ident of None \<Rightarrow> Inl NotFound | Some value \<Rightarrow> Inr value)"

text \<open>
  \<open>login_required\<close> of \<open>flask_login\<close>: a request that is not logged in gets
  the answer of the login manager and the view is not called. (The decorator lets
  every request through when the application sets \<open>LOGIN_DISABLED\<close>; the routes
  are read here with the login check on, as the decorator is there for.)
\<close>

definition login_required :: "('r, 's) app \<Rightarrow> outcome \<Rightarrow> outcome" where
  "login_required a view = (if \<not> is_authenticated a then (Unauthorized, []) else view)"

text \<open>
  Each view reads \<open>project.response\<close> before it calls anything else: as the
  \<open>response\<close> argument of the page in \<open>view_project\<close> (line 20), as the condition
  of the conditional expression in the other two (lines 34 and 50). An exception
  leaves the view there. \<open>view_project\<close> (lines 11 to 22) passes the response to
  \<open>sankey\<close> as it is; the other two views (lines 25 to 51) call \<open>sankey\<close> only on
  a response that is not \<open>None\<close> and pass the empty list otherwise.
\<close>

definition view_project :: "('r, 's) app \<Rightarrow> string \<Rightarrow> outcome" where
  "view_project a project_id =
     login_required a
       (case get_or_404 a project_id of
          Inl abort \<Rightarrow> (abort, [project_id])
        | Inr project \<Rightarrow>
            (case Survey_response project of
               Inl e \<Rightarrow> (InternalServerError e, [project_id])
             | Inr r \<Rightarrow>
                 (case full_sankey a r of
                    Inl e \<Rightarrow> (InternalServerError e, [project_id])
                  | Inr series \<Rightarrow>
                      (Page (render_template a ''project/user_guide.html'' project (Some r)
                               series),
                       [project_id]))))"

definition guarded_sankey :: "('r, 's) app \<Rightarrow> 'r option \<Rightarrow> py_error + 's list" where
  "guarded_sankey a r = (case r of None \<Rightarrow> Inr [] | Some x \<Rightarrow> full_sankey a (Some x))"

definition view_project_overview :: "('r, 's) app \<Rightarrow> string \<Rightarrow> outcome" where
  "view_project_overview a project_id =
     login_required a
       (case get_or_404 a project_id of
          Inl abort \<Rightarrow> (abort, [project_id])
        | Inr project \<Rightarrow>
            (case Survey_response project of
               Inl e \<Rightarrow> (InternalServerError e, [project_id])
             | Inr r \<Rightarrow>
                 (case guarded_sankey a r of
                    Inl e \<Rightarrow> (InternalServerError e, [project_id])
                  | Inr series \<Rightarrow>
                      (Page (render_template a ''project/overview.html'' project None series),
                       [project_id]))))"

definition edit_project :: "('r, 's) app \<Rightarrow> string \<Rightarrow> outcome" where
  "edit_project a project_id =
     login_required a
       (case get_or_404 a project_id of
          Inl abort \<Rightarrow> (abort, [project_id])
        | Inr project \<Rightarrow>
            (case Survey_response project of
               Inl e \<Rightarrow> (InternalServerError e, [project_id])
             | Inr r \<Rightarrow>
                 (case guarded_sankey a r of
                    Inl e \<Rightarrow> (InternalServerError e, [project_id])
                  | Inr series \<Rightarrow>
                      (Page (render_template a ''project/edit.html'' project None series),
                       [project_id]))))"

section \<open>The flow diagram\<close>

text \<open>
  Modelled from the spec: the function \<open>sankey\<close> of \<open>util/full_sankey.py\<close> and the
  colouring of the nodes, neither of which is among the source files. The spec gives
  \<open>sankey\<close> the loaded survey and has it return link records, each naming a source
  node, a target node and a weight, the weight being the performance rating of the
  edge; the links come in stage order and, within a stage, in insertion order. An
  edge belongs to the survey of its source node, and an edge that lacks an endpoint
  names no pair of nodes and gives no link.
\<close>

type_synonym link = "SurveyNode \<times> SurveyNode \<times> int"

definition link_of :: "database \<Rightarrow> SurveyEdge \<Rightarrow> link option" where
  "link_of db e =
     (case source db e of
        None \<Rightarrow> None
      | Some s \<Rightarrow> (case target db e of
                    None \<Rightarrow> None
                  | Some t \<Rightarrow> Some (s, t, edge_performance_rating e)))"

definition in_survey :: "database \<Rightarrow> Survey \<Rightarrow> SurveyEdge \<Rightarrow> bool" where
  "in_survey db s e =
     (case source db e of None \<Rightarrow> False | Some n \<Rightarrow> node_survey_id n = Survey.id' s)"

definition sankey :: "database \<Rightarrow> Survey \<Rightarrow> link list" where
  "sankey db s = List.map_filter (link_of db) (filter (in_survey db s) (edges db))"

text \<open>
  Modelled from the spec: the colour of a node. An application is coloured by its own
  \<open>performance_rating\<close>; any other node by the weighted average of the performance
  ratings of its outgoing edges, and a node without outgoing weight has the neutral
  colour \<open>None\<close>, so nothing is divided by zero. The spec does not say what weighs
  an edge: the weights \<open>w\<close> are a parameter. The outgoing edges of a node are its
  \<open>output_relationships\<close>: the rows of the class the node declares as its output
  whose source key is the node's \<open>id\<close>.
\<close>

definition outgoing :: "database \<Rightarrow> SurveyNode \<Rightarrow> SurveyEdge list" where
  "outgoing db n =
     filter (\<lambda>e. output_relationships (declared (node_class n)) = Some (edge_class e)
                \<and> source_id e = Some (node_id n))
       (edges db)"

definition weighted_average :: "(nat \<times> int) list \<Rightarrow> rat option" where
  "weighted_average wvs =
     (let total = sum_list (map fst wvs)
      in if total = 0 then None
         else Some (of_int (sum_list (map (\<lambda>(w, v). int w * v) wvs)) / of_nat total))"

definition node_color :: "(SurveyEdge \<Rightarrow> nat) \<Rightarrow> database \<Rightarrow> SurveyNode \<Rightarrow> rat option" where
  "node_color w db n =
     (case n of
        Application a \<Rightarrow> Some (of_int (SurveyApplication.performance_rating a))
      | other_node \<Rightarrow>
          weighted_average (map (\<lambda>e. (w e, edge_performance_rating e)) (outgoing db n)))"

section \<open>Rows for the examples\<close>

text \<open>Rows with the columns that matter to an example set and the others left plain.\<close>

definition survey_row :: "int \<Rightarrow> Survey" where
  "survey_row i =
     \<lparr>Survey.id' = i, Survey.title = ''Survey'', Survey.status_id = ''new'',
      Survey.created_by_id = 1, Survey.created_timestamp = 0, Survey.updated_timestamp = 0,
      Survey.description = None, Survey.private' = False\<rparr>"

definition observing_system :: "int \<Rightarrow> int \<Rightarrow> string \<Rightarrow> SurveyObservingSystem" where
  "observing_system i s n =
     \<lparr>short_name = n, full_name = None, organization = ''org'', funder = ''funder'',
      funding_country = ''country'', website = None,
      SurveyObjectFieldMixin.description = None, contact_name = ''contact'',
      contact_title = None, contact_email = ''contact@example.org'', tags = '''',
      version = None, SurveyObservingSystem.id' = i, SurveyObservingSystem.survey_id = s,
      type' = other\<rparr>"

definition data_product :: "int \<Rightarrow> int \<Rightarrow> string \<Rightarrow> SurveyDataProduct" where
  "data_product i s n =
     \<lparr>short_name = n, full_name = None, organization = ''org'', funder = ''funder'',
      funding_country = ''country'', website = None,
      SurveyObjectFieldMixin.description = None, contact_name = ''contact'',
      contact_title = None, contact_email = ''contact@example.org'', tags = '''',
      version = None, SurveyDataProduct.id' = i, SurveyDataProduct.survey_id = s\<rparr>"

definition application :: "int \<Rightarrow> int \<Rightarrow> string \<Rightarrow> int \<Rightarrow> SurveyApplication" where
  "application i s n rating =
     \<lparr>short_name = n, full_name = None, organization = ''org'', funder = ''funder'',
      funding_country = ''country'', website = None,
      SurveyObjectFieldMixin.description = None, contact_name = ''contact'',
      contact_title = None, contact_email = ''contact@example.org'', tags = '''',
      version = None, SurveyApplication.id' = i, SurveyApplication.survey_id = s,
      performance_criteria = None, SurveyApplication.performance_rating = rating\<rparr>"

definition benefit_area :: "int \<Rightarrow> int \<Rightarrow> string \<Rightarrow> SurveySocietalBenefitArea" where
  "benefit_area i s area =
     \<lparr>SurveySocietalBenefitArea.id' = i, SurveySocietalBenefitArea.survey_id = s,
      societal_benefit_area_id = area\<rparr>"

definition observing_system_data_product ::
  "int \<Rightarrow> int option \<Rightarrow> int option \<Rightarrow> int \<Rightarrow> int \<Rightarrow> SurveyObservingSystemDataProduct" where
  "observing_system_data_product i s t criticality performance =
     \<lparr>SurveyObservingSystemDataProduct.id' = i, survey_observing_system_id = s,
      SurveyObservingSystemDataProduct.survey_data_product_id = t,
      SurveyObservingSystemDataProduct.criticality_rating = criticality,
      SurveyObservingSystemDataProduct.performance_rating = performance,
      SurveyObservingSystemDataProduct.rationale = None,
      SurveyObservingSystemDataProduct.needed_improvements = None\<rparr>"

definition data_product_application ::
  "int \<Rightarrow> int option \<Rightarrow> int option \<Rightarrow> int \<Rightarrow> int \<Rightarrow> SurveyDataProductApplication" where
  "data_product_application i s t criticality performance =
     \<lparr>SurveyDataProductApplication.id' = i,
      SurveyDataProductApplication.survey_data_product_id = s,
      SurveyDataProductApplication.survey_application_id = t,
      SurveyDataProductApplication.criticality_rating = criticality,
      SurveyDataProductApplication.performance_rating = performance,
      SurveyDataProductApplication.rationale = None,
      SurveyDataProductApplication.needed_improvements = None\<rparr>"

definition application_benefit_area ::
  "int \<Rightarrow> int option \<Rightarrow> int option \<Rightarrow> int \<Rightarrow> SurveyApplicationSocietalBenefitArea" where
  "application_benefit_area i s t performance =
     \<lparr>SurveyApplicationSocietalBenefitArea.id' = i,
      SurveyApplicationSocietalBenefitArea.survey_application_id = s,
      survey_societal_benefit_area_id = t,
      SurveyApplicationSocietalBenefitArea.performance_rating = performance\<rparr>"

text \<open>
  The survey of the aggregation scenario: one observing system \<open>O\<close>, one data product
  \<open>D\<close>, one application \<open>A\<close> rated 90, one benefit area \<open>S\<close>, the edges
  \<open>O\<close> to \<open>D\<close> (performance 80) and \<open>D\<close> to \<open>A\<close> (performance 60), and, when
  \<open>p\<close> is set, an edge \<open>A\<close> to \<open>S\<close> with that performance. The criticality
  ratings \<open>c1\<close> and \<open>c2\<close> are free.
\<close>

definition scenario :: "int \<Rightarrow> int \<Rightarrow> int option \<Rightarrow> database" where
  "scenario c1 c2 p =
     \<lparr>survey = [survey_row 1],
      survey_observing_system = [observing_system 1 1 ''O''],
      survey_data_product = [data_product 1 1 ''D''],
      survey_application = [application 1 1 ''A'' 90],
      survey_societal_benefit_area = [benefit_area 1 1 ''S''],
      survey_observing_system_data_product =
        [observing_system_data_product 1 (Some 1) (Some 1) c1 80],
      survey_data_product_application = [data_product_application 1 (Some 1) (Some 1) c2 60],
      survey_application_societal_benefit_area =
        (case p of None \<Rightarrow> [] | Some r \<Rightarrow> [application_benefit_area 1 (Some 1) (Some 1) r])\<rparr>"

text \<open>Writes that put two benefit areas into one survey.\<close>

definition two_benefit_areas :: "db_op list" where
  "two_benefit_areas =
     [Insert_Survey (survey_row 1),
      Insert_SurveySocietalBenefitArea (benefit_area 1 1 ''Agriculture''),
      Insert_SurveySocietalBenefitArea (benefit_area 2 1 ''Energy'')]"

text \<open>Writes that connect an observing system of one survey to a data product of another.\<close>

definition edge_across_surveys :: "db_op list" where
  "edge_across_surveys =
     [Insert_Survey (survey_row 1), Insert_Survey (survey_row 2),
      Insert_SurveyObservingSystem (observing_system 1 1 ''O''),
      Insert_SurveyDataProduct (data_product 1 2 ''D''),
      Insert_SurveyObservingSystemDataProduct
        (observing_system_data_product 1 (Some 1) (Some 1) 50 50)]"

text \<open>Writes that put two observing systems and two edges into one survey.\<close>

definition small_survey :: "db_op list" where
  "small_survey =
     [Insert_Survey (survey_row 1),
      Insert_SurveyObservingSystem (observing_system 1 1 ''O1''),
      Insert_SurveyObservingSystem (observing_system 2 1 ''O2''),
      Insert_SurveyDataProduct (data_product 1 1 ''D''),
      Insert_SurveyObservingSystemDataProduct
        (observing_system_data_product 1 (Some 1) (Some 1) 50 80),
      Insert_SurveyObservingSystemDataProduct
        (observing_system_data_product 2 (Some 2) (Some 1) 50 70)]"


definition member_request :: "(unit, unit) app" where
  "member_request =
     \<lparr>is_authenticated = True,
      session_get = (\<lambda>ident. if ident = ''1'' then Some (survey_row 1) else None),
      full_sankey = (\<lambda>r. Inr []),
      render_template = (\<lambda>template project r series. template)\<rparr>"

text \<open>A user, and an environment in which that user is logged in at time 1000.\<close>

definition some_user :: User where
  "some_user =
     \<lparr>User.id' = 7, email = ''user@example.org'', name = ''User'', orcid = None,
      role_id = ''analyst'', biography = None, affiliation = None\<rparr>"

definition some_environment :: environment where
  "some_environment =
     \<lparr>STATUSES = [''new'', ''in progress''], current_user = Some some_user,
      time_at = (\<lambda>k. 1000 + k), now_calls = 0\<rparr>"


section \<open>Lists of rows\<close>

lemma sql_and_Some: "sql_and (Some a) (Some b) = Some (a \<and> b)"
  by (cases a; cases b) simp_all

lemma map_id_replace_row: "map idf (replace_row idf r rows) = map idf rows"
  by (induction rows) (simp_all add: replace_row_def)

lemma replace_row_absent:
  "idf r \<notin> set (map idf rows) \<Longrightarrow> replace_row idf r rows = rows"
  by (induction rows) (auto simp: replace_row_def)

lemma filter_others_absent:
  "idf r \<notin> set (map idf rows) \<Longrightarrow> filter (\<lambda>x. idf x \<noteq> idf r) rows = rows"
  by (induction rows) auto

lemma distinct_map_replace_row:
  assumes "distinct (map idf rows)" and "distinct (map k rows)"
    and "k r \<notin> set (map k (filter (\<lambda>x. idf x \<noteq> idf r) rows))"
  shows "distinct (map k (replace_row idf r rows))"
  using assms
proof (induction rows)
  case Nil
  then show ?case by (simp add: replace_row_def)
next
  case (Cons x xs)
  show ?case
  proof (cases "idf x = idf r")
    case True
    with Cons.prems(1) have absent: "idf r \<notin> set (map idf xs)" by simp
    then have "replace_row idf r xs = xs" and "filter (\<lambda>x. idf x \<noteq> idf r) xs = xs"
      by (simp_all add: replace_row_absent filter_others_absent)
    with True Cons.prems show ?thesis by (simp add: replace_row_def)
  next
    case False
    from Cons.prems False have "k r \<notin> set (map k (filter (\<lambda>x. idf x \<noteq> idf r) xs))"
      by simp
    with Cons.IH Cons.prems have IH: "distinct (map k (replace_row idf r xs))" by simp
    have "k x \<notin> set (map k (replace_row idf r xs))"
    proof
      assume "k x \<in> set (map k (replace_row idf r xs))"
      then obtain y where y: "y \<in> set (replace_row idf r xs)" "k y = k x" by auto
      then have "y = r \<or> y \<in> set xs" by (auto simp: replace_row_def split: if_splits)
      then show False
      proof
        assume "y = r"
        with y False Cons.prems(3) show False by auto
      next
        assume "y \<in> set xs"
        with y Cons.prems(2) show False by (auto simp: image_iff)
      qed
    qed
    with IH False show ?thesis by (simp add: replace_row_def)
  qed
qed

lemma distinct_map_replace_row_image:
  "distinct (map idf rows) \<Longrightarrow> distinct (map k rows)
   \<Longrightarrow> k r \<notin> k ` {x \<in> set rows. idf x \<noteq> idf r}
   \<Longrightarrow> distinct (map k (replace_row idf r rows))"
  by (rule distinct_map_replace_row) simp_all

lemma set_pairs_append:
  "set_pairs key (rows @ [r]) = set_pairs key rows @ (if key r = None then [] else [key r])"
  by (simp add: set_pairs_def)

lemma set_set_pairs: "set (set_pairs key rows) = {k \<in> key ` set rows. k \<noteq> None}"
  by (auto simp: set_pairs_def)

lemma set_pairs_filter_rows:
  "set_pairs key rows = map key (filter (\<lambda>x. key x \<noteq> None) rows)"
  by (induction rows) (simp_all add: set_pairs_def)

lemma distinct_set_pairs_filter:
  "distinct (set_pairs key rows) \<Longrightarrow> distinct (set_pairs key (filter P rows))"
proof -
  assume "distinct (set_pairs key rows)"
  then have "distinct (map key (filter P (filter (\<lambda>x. key x \<noteq> None) rows)))"
    unfolding set_pairs_filter_rows by (rule distinct_map_filter)
  moreover have "filter P (filter (\<lambda>x. key x \<noteq> None) rows)
      = filter (\<lambda>x. key x \<noteq> None) (filter P rows)"
    by (induction rows) simp_all
  ultimately show ?thesis by (simp only: set_pairs_filter_rows)
qed

lemma distinct_set_pairs_insert:
  "distinct (set_pairs key rows) \<Longrightarrow> \<not> pair_taken (key r) (map key rows)
   \<Longrightarrow> distinct (set_pairs key (rows @ [r]))"
  by (auto simp: set_pairs_append set_set_pairs pair_taken_def split: option.splits)

lemma distinct_set_pairs_replace_row:
  assumes "distinct (map idf rows)" and "distinct (set_pairs key rows)"
    and "\<not> pair_taken (key r) (map key (filter (\<lambda>x. idf x \<noteq> idf r) rows))"
  shows "distinct (set_pairs key (replace_row idf r rows))"
  using assms
proof (induction rows)
  case Nil
  then show ?case by (simp add: replace_row_def set_pairs_def)
next
  case (Cons x xs)
  show ?case
  proof (cases "idf x = idf r")
    case True
    with Cons.prems(1) have absent: "idf r \<notin> set (map idf xs)" by simp
    then have same: "replace_row idf r xs = xs" "filter (\<lambda>x. idf x \<noteq> idf r) xs = xs"
      by (simp_all add: replace_row_absent filter_others_absent)
    have "replace_row idf r (x # xs) = r # xs"
      using True same by (simp add: replace_row_def)
    moreover have "distinct (set_pairs key xs)"
      using Cons.prems(2) by (simp add: set_pairs_def split: if_splits)
    moreover have "key r \<noteq> None \<Longrightarrow> key r \<notin> set (set_pairs key xs)"
      using Cons.prems(3) True same
      by (auto simp: pair_taken_def set_set_pairs split: option.splits)
    ultimately show ?thesis by (auto simp: set_pairs_def)
  next
    case False
    from Cons.prems False
    have "\<not> pair_taken (key r) (map key (filter (\<lambda>x. idf x \<noteq> idf r) xs))"
      by (auto simp: pair_taken_def split: option.splits)
    with Cons.IH Cons.prems have IH: "distinct (set_pairs key (replace_row idf r xs))"
      by (simp add: set_pairs_def split: if_splits)
    have "key x \<noteq> None \<Longrightarrow> key x \<notin> set (set_pairs key (replace_row idf r xs))"
    proof
      assume some: "key x \<noteq> None" and "key x \<in> set (set_pairs key (replace_row idf r xs))"
      then obtain y where y: "y \<in> set (replace_row idf r xs)" "key y = key x"
        by (auto simp: set_set_pairs)
      then have "y = r \<or> y \<in> set xs" by (auto simp: replace_row_def split: if_splits)
      then show False
      proof
        assume "y = r"
        with y some False Cons.prems(3) show False
          by (auto simp: pair_taken_def split: option.splits)
      next
        assume "y \<in> set xs"
        with y some Cons.prems(2) show False
          by (auto simp: set_pairs_def image_iff split: if_splits)
      qed
    qed
    with IH False show ?thesis by (auto simp: replace_row_def set_pairs_def)
  qed
qed

lemma list_all_references_append:
  "list_all (\<lambda>e. references (f e) ids) es
   \<Longrightarrow> list_all (\<lambda>e. references (f e) (ids @ [i])) es"
  by (auto simp: list_all_iff references_def split: option.splits)

lemma list_all_keep_filter: "list_all P es \<Longrightarrow> list_all P (filter Q es)"
  by (simp add: list_all_iff)

lemma list_all_references_cascade:
  "list_all (\<lambda>e. references (f e) (map idf rows)) es
   \<Longrightarrow> list_all (\<lambda>e. references (f e) (map idf (filter (\<lambda>x. idf x \<noteq> i) rows)))
         (filter (\<lambda>e. f e \<noteq> Some i) es)"
  by (auto simp: list_all_iff references_def split: option.splits)

lemma list_all_replace_row:
  "list_all P rows \<Longrightarrow> P r \<Longrightarrow> list_all P (replace_row idf r rows)"
  by (induction rows) (simp_all add: replace_row_def)

lemma image_id_replace_row: "idf ` set (replace_row idf r rows) = idf ` set rows"
  using map_id_replace_row [of idf r rows] by (metis set_map)

lemma member_after_delete:
  "j \<in> idf ` set rows \<Longrightarrow> j \<noteq> i \<Longrightarrow> j \<in> idf ` {x \<in> set rows. idf x \<noteq> i}"
  by auto

lemma list_all_member_append:
  "list_all (\<lambda>n. f n \<in> idf ` set rows) ns
   \<Longrightarrow> list_all (\<lambda>n. f n = idf r \<or> f n \<in> idf ` set rows) ns"
  by (simp add: list_all_iff)

lemma list_all_member_delete:
  assumes "list_all (\<lambda>n. f n \<in> idf ` set rows) ns" and "i \<notin> f ` set ns"
  shows "list_all (\<lambda>n. f n \<in> idf ` {x \<in> set rows. idf x \<noteq> i}) ns"
proof -
  have "f n \<in> idf ` {x \<in> set rows. idf x \<noteq> i}" if "n \<in> set ns" for n
  proof (rule member_after_delete)
    from assms(1) that show "f n \<in> idf ` set rows" by (simp add: list_all_iff)
    from assms(2) that show "f n \<noteq> i" by blast
  qed
  then show ?thesis by (simp add: list_all_iff)
qed

section \<open>What the rating columns accept\<close>

lemma accepts_SurveyApplication_performance_rating:
  "accepts SurveyApplication_performance_rating v = (\<exists>n. v = Some n \<and> 0 < n \<and> n \<le> 100)"
  by (cases v) (auto simp: accepts_def SurveyApplication_performance_rating_def sql_and_Some)

lemma accepts_SurveyObservingSystemDataProduct_criticality_rating:
  "accepts SurveyObservingSystemDataProduct_criticality_rating v
     = (\<exists>n. v = Some n \<and> 0 \<le> n \<and> n \<le> 100)"
  by (cases v)
     (auto simp: accepts_def SurveyObservingSystemDataProduct_criticality_rating_def sql_and_Some)

lemma accepts_SurveyObservingSystemDataProduct_performance_rating:
  "accepts SurveyObservingSystemDataProduct_performance_rating v
     = (\<exists>n. v = Some n \<and> 0 \<le> n \<and> n \<le> 100)"
  by (cases v)
     (auto simp: accepts_def SurveyObservingSystemDataProduct_performance_rating_def sql_and_Some)

lemma accepts_SurveyDataProductApplication_criticality_rating:
  "accepts SurveyDataProductApplication_criticality_rating v
     = (\<exists>n. v = Some n \<and> 0 \<le> n \<and> n \<le> 100)"
  by (cases v)
     (auto simp: accepts_def SurveyDataProductApplication_criticality_rating_def sql_and_Some)

lemma accepts_SurveyDataProductApplication_performance_rating:
  "accepts SurveyDataProductApplication_performance_rating v
     = (\<exists>n. v = Some n \<and> 0 \<le> n \<and> n \<le> 100)"
  by (cases v)
     (auto simp: accepts_def SurveyDataProductApplication_performance_rating_def sql_and_Some)

lemma accepts_SurveyApplicationSocietalBenefitArea_performance_rating:
  "accepts SurveyApplicationSocietalBenefitArea_performance_rating v
     = (\<exists>n. v = Some n \<and> 0 \<le> n \<and> n \<le> 100)"
  by (cases v)
     (auto simp: accepts_def SurveyApplicationSocietalBenefitArea_performance_rating_def
        sql_and_Some)

lemmas accepts_rating =
  accepts_SurveyApplication_performance_rating
  accepts_SurveyObservingSystemDataProduct_criticality_rating
  accepts_SurveyObservingSystemDataProduct_performance_rating
  accepts_SurveyDataProductApplication_criticality_rating
  accepts_SurveyDataProductApplication_performance_rating
  accepts_SurveyApplicationSocietalBenefitArea_performance_rating

section \<open>Every write keeps the constraints\<close>

lemmas constraint_defs =
  consistent_def ids_unique_def node_keys_unique_def edge_pairs_unique_def
  edge_foreign_keys_def node_foreign_keys_def ratings_in_range_def

lemmas keeps_rows =
  map_id_replace_row image_id_replace_row distinct_map_filter distinct_map_replace_row_image
  distinct_set_pairs_replace_row distinct_set_pairs_insert distinct_set_pairs_filter
  list_all_references_append list_all_keep_filter list_all_references_cascade
  list_all_replace_row list_all_member_append list_all_member_delete accepts_rating

lemma insert_Survey_consistent:
  "consistent db
   \<Longrightarrow> (case insert_Survey r db of Inl e \<Rightarrow> True | Inr db' \<Rightarrow> consistent db')"
  by (simp add: constraint_defs insert_Survey_def keeps_rows)

lemma update_Survey_consistent:
  "consistent db
   \<Longrightarrow> (case update_Survey r db of Inl e \<Rightarrow> True | Inr db' \<Rightarrow> consistent db')"
  by (simp add: constraint_defs update_Survey_def keeps_rows)

lemma delete_Survey_consistent:
  "consistent db
   \<Longrightarrow> (case delete_Survey r db of Inl e \<Rightarrow> True | Inr db' \<Rightarrow> consistent db')"
  by (simp add: constraint_defs delete_Survey_def keeps_rows)

lemma insert_SurveyObservingSystem_consistent:
  "consistent db
   \<Longrightarrow> (case insert_SurveyObservingSystem r db of Inl e \<Rightarrow> True | Inr db' \<Rightarrow> consistent db')"
  by (simp add: constraint_defs insert_SurveyObservingSystem_def keeps_rows)

lemma update_SurveyObservingSystem_consistent:
  "consistent db
   \<Longrightarrow> (case update_SurveyObservingSystem r db of Inl e \<Rightarrow> True | Inr db' \<Rightarrow> consistent db')"
  by (simp add: constraint_defs update_SurveyObservingSystem_def keeps_rows)

lemma delete_SurveyObservingSystem_consistent:
  "consistent db
   \<Longrightarrow> (case delete_SurveyObservingSystem r db of Inl e \<Rightarrow> True | Inr db' \<Rightarrow> consistent db')"
  by (simp add: constraint_defs delete_SurveyObservingSystem_def keeps_rows)

lemma insert_SurveyDataProduct_consistent:
  "consistent db
   \<Longrightarrow> (case insert_SurveyDataProduct r db of Inl e \<Rightarrow> True | Inr db' \<Rightarrow> consistent db')"
  by (simp add: constraint_defs insert_SurveyDataProduct_def keeps_rows)

lemma update_SurveyDataProduct_consistent:
  "consistent db
   \<Longrightarrow> (case update_SurveyDataProduct r db of Inl e \<Rightarrow> True | Inr db' \<Rightarrow> consistent db')"
  by (simp add: constraint_defs update_SurveyDataProduct_def keeps_rows)

lemma delete_SurveyDataProduct_consistent:
  "consistent db
   \<Longrightarrow> (case delete_SurveyDataProduct r db of Inl e \<Rightarrow> True | Inr db' \<Rightarrow> consistent db')"
  by (simp add: constraint_defs delete_SurveyDataProduct_def keeps_rows)

lemma insert_SurveyApplication_consistent:
  "consistent db
   \<Longrightarrow> (case insert_SurveyApplication r db of Inl e \<Rightarrow> True | Inr db' \<Rightarrow> consistent db')"
  by (simp add: constraint_defs insert_SurveyApplication_def keeps_rows)

lemma update_SurveyApplication_consistent:
  "consistent db
   \<Longrightarrow> (case update_SurveyApplication r db of Inl e \<Rightarrow> True | Inr db' \<Rightarrow> consistent db')"
  by (simp add: constraint_defs update_SurveyApplication_def keeps_rows)

lemma delete_SurveyApplication_consistent:
  "consistent db
   \<Longrightarrow> (case delete_SurveyApplication r db of Inl e \<Rightarrow> True | Inr db' \<Rightarrow> consistent db')"
  by (simp add: constraint_defs delete_SurveyApplication_def keeps_rows)

lemma insert_SurveySocietalBenefitArea_consistent:
  "consistent db
   \<Longrightarrow> (case insert_SurveySocietalBenefitArea r db of Inl e \<Rightarrow> True | Inr db' \<Rightarrow> consistent db')"
  by (simp add: constraint_defs insert_SurveySocietalBenefitArea_def keeps_rows)

lemma update_SurveySocietalBenefitArea_consistent:
  "consistent db
   \<Longrightarrow> (case update_SurveySocietalBenefitArea r db of Inl e \<Rightarrow> True | Inr db' \<Rightarrow> consistent db')"
  by (simp add: constraint_defs update_SurveySocietalBenefitArea_def keeps_rows)

lemma delete_SurveySocietalBenefitArea_consistent:
  "consistent db
   \<Longrightarrow> (case delete_SurveySocietalBenefitArea r db of Inl e \<Rightarrow> True | Inr db' \<Rightarrow> consistent db')"
  by (simp add: constraint_defs delete_SurveySocietalBenefitArea_def keeps_rows)

lemma insert_SurveyObservingSystemDataProduct_consistent:
  "consistent db
   \<Longrightarrow> (case insert_SurveyObservingSystemDataProduct r db of Inl e \<Rightarrow> True | Inr db' \<Rightarrow> consistent db')"
  by (simp add: constraint_defs insert_SurveyObservingSystemDataProduct_def keeps_rows)

lemma update_SurveyObservingSystemDataProduct_consistent:
  "consistent db
   \<Longrightarrow> (case update_SurveyObservingSystemDataProduct r db of Inl e \<Rightarrow> True | Inr db' \<Rightarrow> consistent db')"
  by (simp add: constraint_defs update_SurveyObservingSystemDataProduct_def keeps_rows)

lemma delete_SurveyObservingSystemDataProduct_consistent:
  "consistent db
   \<Longrightarrow> (case delete_SurveyObservingSystemDataProduct r db of Inl e \<Rightarrow> True | Inr db' \<Rightarrow> consistent db')"
  by (simp add: constraint_defs delete_SurveyObservingSystemDataProduct_def keeps_rows)

lemma insert_SurveyDataProductApplication_consistent:
  "consistent db
   \<Longrightarrow> (case insert_SurveyDataProductApplication r db of Inl e \<Rightarrow> True | Inr db' \<Rightarrow> consistent db')"
  by (simp add: constraint_defs insert_SurveyDataProductApplication_def keeps_rows)

lemma update_SurveyDataProductApplication_consistent:
  "consistent db
   \<Longrightarrow> (case update_SurveyDataProductApplication r db of Inl e \<Rightarrow> True | Inr db' \<Rightarrow> consistent db')"
  by (simp add: constraint_defs update_SurveyDataProductApplication_def keeps_rows)

lemma delete_SurveyDataProductApplication_consistent:
  "consistent db
   \<Longrightarrow> (case delete_SurveyDataProductApplication r db of Inl e \<Rightarrow> True | Inr db' \<Rightarrow> consistent db')"
  by (simp add: constraint_defs delete_SurveyDataProductApplication_def keeps_rows)

lemma insert_SurveyApplicationSocietalBenefitArea_consistent:
  "consistent db
   \<Longrightarrow> (case insert_SurveyApplicationSocietalBenefitArea r db of Inl e \<Rightarrow> True | Inr db' \<Rightarrow> consistent db')"
  by (simp add: constraint_defs insert_SurveyApplicationSocietalBenefitArea_def keeps_rows)

lemma update_SurveyApplicationSocietalBenefitArea_consistent:
  "consistent db
   \<Longrightarrow> (case update_SurveyApplicationSocietalBenefitArea r db of Inl e \<Rightarrow> True | Inr db' \<Rightarrow> consistent db')"
  by (simp add: constraint_defs update_SurveyApplicationSocietalBenefitArea_def keeps_rows)

lemma delete_SurveyApplicationSocietalBenefitArea_consistent:
  "consistent db
   \<Longrightarrow> (case delete_SurveyApplicationSocietalBenefitArea r db of Inl e \<Rightarrow> True | Inr db' \<Rightarrow> consistent db')"
  by (simp add: constraint_defs delete_SurveyApplicationSocietalBenefitArea_def keeps_rows)

lemma apply_op_consistent:
  assumes "apply_op op db = Inr db'" and "consistent db"
  shows "consistent db'"
proof (cases op)
  case (Insert_Survey r)
  with assms insert_Survey_consistent [of db r] show ?thesis by simp
next
  case (Update_Survey r)
  with assms update_Survey_consistent [of db r] show ?thesis by simp
next
  case (Delete_Survey r)
  with assms delete_Survey_consistent [of db r] show ?thesis by simp
next
  case (Insert_SurveyObservingSystem r)
  with assms insert_SurveyObservingSystem_consistent [of db r] show ?thesis by simp
next
  case (Update_SurveyObservingSystem r)
  with assms update_SurveyObservingSystem_consistent [of db r] show ?thesis by simp
next
  case (Delete_SurveyObservingSystem r)
  with assms delete_SurveyObservingSystem_consistent [of db r] show ?thesis by simp
next
  case (Insert_SurveyDataProduct r)
  with assms insert_SurveyDataProduct_consistent [of db r] show ?thesis by simp
next
  case (Update_SurveyDataProduct r)
  with assms update_SurveyDataProduct_consistent [of db r] show ?thesis by simp
next
  case (Delete_SurveyDataProduct r)
  with assms delete_SurveyDataProduct_consistent [of db r] show ?thesis by simp
next
  case (Insert_SurveyApplication r)
  with assms insert_SurveyApplication_consistent [of db r] show ?thesis by simp
next
  case (Update_SurveyApplication r)
  with assms update_SurveyApplication_consistent [of db r] show ?thesis by simp
next
  case (Delete_SurveyApplication r)
  with assms delete_SurveyApplication_consistent [of db r] show ?thesis by simp
next
  case (Insert_SurveySocietalBenefitArea r)
  with assms insert_SurveySocietalBenefitArea_consistent [of db r] show ?thesis by simp
next
  case (Update_SurveySocietalBenefitArea r)
  with assms update_SurveySocietalBenefitArea_consistent [of db r] show ?thesis by simp
next
  case (Delete_SurveySocietalBenefitArea r)
  with assms delete_SurveySocietalBenefitArea_consistent [of db r] show ?thesis by simp
next
  case (Insert_SurveyObservingSystemDataProduct r)
  with assms insert_SurveyObservingSystemDataProduct_consistent [of db r] show ?thesis by simp
next
  case (Update_SurveyObservingSystemDataProduct r)
  with assms update_SurveyObservingSystemDataProduct_consistent [of db r] show ?thesis by simp
next
  case (Delete_SurveyObservingSystemDataProduct r)
  with assms delete_SurveyObservingSystemDataProduct_consistent [of db r] show ?thesis by simp
next
  case (Insert_SurveyDataProductApplication r)
  with assms insert_SurveyDataProductApplication_consistent [of db r] show ?thesis by simp
next
  case (Update_SurveyDataProductApplication r)
  with assms update_SurveyDataProductApplication_consistent [of db r] show ?thesis by simp
next
  case (Delete_SurveyDataProductApplication r)
  with assms delete_SurveyDataProductApplication_consistent [of db r] show ?thesis by simp
next
  case (Insert_SurveyApplicationSocietalBenefitArea r)
  with assms insert_SurveyApplicationSocietalBenefitArea_consistent [of db r] show ?thesis by simp
next
  case (Update_SurveyApplicationSocietalBenefitArea r)
  with assms update_SurveyApplicationSocietalBenefitArea_consistent [of db r] show ?thesis by simp
next
  case (Delete_SurveyApplicationSocietalBenefitArea r)
  with assms delete_SurveyApplicationSocietalBenefitArea_consistent [of db r] show ?thesis by simp
qed

lemma commit_consistent: "consistent db \<Longrightarrow> consistent (commit db op)"
  by (auto simp: commit_def split: sum.splits dest: apply_op_consistent)

lemma foldl_commit_consistent: "consistent db \<Longrightarrow> consistent (foldl commit db ops)"
  by (induction ops arbitrary: db) (simp_all add: commit_consistent)

lemma empty_database_consistent: "consistent empty_database"
  by (simp add: constraint_defs set_pairs_def empty_database_def)

lemma run_consistent: "consistent (run ops)"
  by (simp add: run_def foldl_commit_consistent empty_database_consistent)
section \<open>From the constraints to the properties\<close>

lemma distinct_keys_unique_within_survey:
  assumes "distinct (map (\<lambda>r. (nm r, sid r)) rows)"
  shows "unique_within_survey sid nm rows"
proof -
  from assms have "inj_on (\<lambda>r. (nm r, sid r)) (set rows)"
    by (simp add: distinct_map)
  then show ?thesis
    unfolding unique_within_survey_def inj_on_def by blast
qed

lemma distinct_pairs_no_parallel_edges:
  assumes "distinct (set_pairs (\<lambda>r. pair_key (src r) (tgt r)) rows)"
  shows "no_parallel_edges src tgt rows"
proof -
  let ?key = "\<lambda>r. pair_key (src r) (tgt r)"
  from assms have inj: "inj_on ?key (set (filter (\<lambda>x. ?key x \<noteq> None) rows))"
    by (simp add: set_pairs_filter_rows distinct_map)
  show ?thesis
    unfolding no_parallel_edges_def
  proof (intro ballI allI impI)
    fix x y s t
    assume x: "x \<in> set rows" and y: "y \<in> set rows"
      and eq: "src x = Some s \<and> tgt x = Some t \<and> src y = Some s \<and> tgt y = Some t"
    then have "?key x = Some (s, t)" and "?key y = Some (s, t)" by simp_all
    with x y inj show "x = y" by (auto simp: inj_on_def)
  qed
qed

lemma get_row_found:
  assumes "i \<in> set (map idf rows)"
  shows "\<exists>r. get_row idf rows (Some i) = Some r \<and> r \<in> set rows \<and> idf r = i"
proof -
  from assms obtain x where "x \<in> set rows" and "idf x = i" by auto
  then have "find (\<lambda>r. idf r = i) rows \<noteq> None"
    by (auto simp: find_None_iff)
  then obtain r where r: "find (\<lambda>r. idf r = i) rows = Some r" by blast
  then have "r \<in> set rows \<and> idf r = i"
    by (auto simp: find_Some_iff)
  with r show ?thesis by (simp add: get_row_def)
qed

lemma get_row_None [simp]: "get_row idf rows None = None"
  by (simp add: get_row_def)

lemma get_row_Some: "get_row idf rows fk = Some r \<Longrightarrow> fk = Some (idf r) \<and> r \<in> set rows"
  by (cases fk) (auto simp: get_row_def find_Some_iff)

lemma endpoint_exists_get_row:
  assumes "references fk (map idf rows)"
    and "\<And>r. r \<in> set rows \<Longrightarrow> C r \<in> set (nodes db) \<and> node_id (C r) = idf r
            \<and> node_survey_id (C r) \<in> set (map Survey.id' (survey db))"
  shows "endpoint_exists db fk (map_option C (get_row idf rows fk))"
proof (cases fk)
  case None
  then show ?thesis by (simp add: endpoint_exists_def)
next
  case (Some i)
  with assms(1) have "i \<in> set (map idf rows)" by (simp add: references_def)
  then obtain r where "get_row idf rows (Some i) = Some r" "r \<in> set rows" "idf r = i"
    using get_row_found by blast
  with Some assms(2) [of r] show ?thesis by (simp add: endpoint_exists_def)
qed

lemma consistent_endpoints_exist:
  assumes "consistent db"
  shows "endpoints_exist db"
proof -
  from assms have fk: "edge_foreign_keys db" and nfk: "node_foreign_keys db"
    by (simp_all add: consistent_def)
  have os: "ObservingSystem r \<in> set (nodes db) \<and> node_id (ObservingSystem r) = SurveyObservingSystem.id' r
      \<and> node_survey_id (ObservingSystem r) \<in> set (map Survey.id' (survey db))"
    if "r \<in> set (survey_observing_system db)" for r
    using that nfk by (auto simp: nodes_def node_foreign_keys_def list_all_iff)
  have dp: "DataProduct r \<in> set (nodes db) \<and> node_id (DataProduct r) = SurveyDataProduct.id' r
      \<and> node_survey_id (DataProduct r) \<in> set (map Survey.id' (survey db))"
    if "r \<in> set (survey_data_product db)" for r
    using that nfk by (auto simp: nodes_def node_foreign_keys_def list_all_iff)
  have app: "Application r \<in> set (nodes db) \<and> node_id (Application r) = SurveyApplication.id' r
      \<and> node_survey_id (Application r) \<in> set (map Survey.id' (survey db))"
    if "r \<in> set (survey_application db)" for r
    using that nfk by (auto simp: nodes_def node_foreign_keys_def list_all_iff)
  have sba: "SocietalBenefitArea r \<in> set (nodes db)
      \<and> node_id (SocietalBenefitArea r) = SurveySocietalBenefitArea.id' r
      \<and> node_survey_id (SocietalBenefitArea r) \<in> set (map Survey.id' (survey db))"
    if "r \<in> set (survey_societal_benefit_area db)" for r
    using that nfk by (auto simp: nodes_def node_foreign_keys_def list_all_iff)
  have "endpoint_exists db (source_id (ObservingSystemDataProduct e))
          (source db (ObservingSystemDataProduct e))
      \<and> endpoint_exists db (target_id (ObservingSystemDataProduct e))
          (target db (ObservingSystemDataProduct e))"
    if "e \<in> set (survey_observing_system_data_product db)" for e
    using that fk os dp
    by (simp add: edge_foreign_keys_def list_all_iff endpoint_exists_get_row
          SurveyObservingSystemDataProduct_source_def SurveyObservingSystemDataProduct_target_def
          SurveyObservingSystemDataProduct_observing_system_def
          SurveyObservingSystemDataProduct_data_product_def)
  moreover have "endpoint_exists db (source_id (DataProductApplication e))
          (source db (DataProductApplication e))
      \<and> endpoint_exists db (target_id (DataProductApplication e))
          (target db (DataProductApplication e))"
    if "e \<in> set (survey_data_product_application db)" for e
    using that fk dp app
    by (simp add: edge_foreign_keys_def list_all_iff endpoint_exists_get_row
          SurveyDataProductApplication_source_def SurveyDataProductApplication_target_def
          SurveyDataProductApplication_data_product_def
          SurveyDataProductApplication_application_def)
  moreover have "endpoint_exists db (source_id (ApplicationSocietalBenefitArea e))
          (source db (ApplicationSocietalBenefitArea e))
      \<and> endpoint_exists db (target_id (ApplicationSocietalBenefitArea e))
          (target db (ApplicationSocietalBenefitArea e))"
    if "e \<in> set (survey_application_societal_benefit_area db)" for e
    using that fk app sba
    by (simp add: edge_foreign_keys_def list_all_iff endpoint_exists_get_row
          SurveyApplicationSocietalBenefitArea_source_def
          SurveyApplicationSocietalBenefitArea_target_def
          SurveyApplicationSocietalBenefitArea_application_def
          SurveyApplicationSocietalBenefitArea_societal_benefit_area_def)
  ultimately show ?thesis
    by (auto simp: endpoints_exist_def edges_def list_all_iff)
qed

section \<open>The example databases, computed\<close>

lemmas example_rows =
  survey_row_def observing_system_def data_product_def application_def benefit_area_def
  observing_system_data_product_def data_product_application_def
  application_benefit_area_def

lemmas example_writes =
  run_def commit_def empty_database_def insert_Survey_def insert_SurveyObservingSystem_def
  insert_SurveyDataProduct_def insert_SurveyApplication_def
  insert_SurveySocietalBenefitArea_def insert_SurveyObservingSystemDataProduct_def
  insert_SurveyDataProductApplication_def insert_SurveyApplicationSocietalBenefitArea_def
  SurveyObservingSystem_unique_def SurveyDataProduct_unique_def SurveyApplication_unique_def
  SurveySocietalBenefitArea_unique_def SurveyObservingSystemDataProduct_unique_def
  SurveyDataProductApplication_unique_def SurveyApplicationSocietalBenefitArea_unique_def
  pair_taken_def references_def accepts_rating

lemma run_two_benefit_areas:
  "run two_benefit_areas =
     empty_database\<lparr>survey := [survey_row 1],
       survey_societal_benefit_area :=
         [benefit_area 1 1 ''Agriculture'', benefit_area 2 1 ''Energy'']\<rparr>"
  by (simp add: two_benefit_areas_def example_writes example_rows)

lemma run_edge_across_surveys:
  "run edge_across_surveys =
     empty_database\<lparr>survey := [survey_row 1, survey_row 2],
       survey_observing_system := [observing_system 1 1 ''O''],
       survey_data_product := [data_product 1 2 ''D''],
       survey_observing_system_data_product :=
         [observing_system_data_product 1 (Some 1) (Some 1) 50 50]\<rparr>"
  by (simp add: edge_across_surveys_def example_writes example_rows)

lemma run_small_survey:
  "run small_survey =
     empty_database\<lparr>survey := [survey_row 1],
       survey_observing_system := [observing_system 1 1 ''O1'', observing_system 2 1 ''O2''],
       survey_data_product := [data_product 1 1 ''D''],
       survey_observing_system_data_product :=
         [observing_system_data_product 1 (Some 1) (Some 1) 50 80,
          observing_system_data_product 2 (Some 2) (Some 1) 50 70]\<rparr>"
  by (simp add: small_survey_def example_writes example_rows)

section \<open>The shipped node classes\<close>

text \<open>
  C9. For each of the four node classes of the model the lookup returns a dictionary
  and does not raise: the observing system has exactly the key \<open>output\<close>, the data
  product and the application have both keys, the societal benefit area has exactly
  the key \<open>input\<close>; each key leads to the association class of the adjacent stage.
\<close>

theorem io_shipped_node_classes:
  "io (declared SurveyObservingSystem_class) =
     Inr [(Output, SurveyObservingSystemDataProduct_class)]
   \<and> io (declared SurveyDataProduct_class) =
     Inr [(Input, SurveyObservingSystemDataProduct_class),
          (Output, SurveyDataProductApplication_class)]
   \<and> io (declared SurveyApplication_class) =
     Inr [(Input, SurveyDataProductApplication_class),
          (Output, SurveyApplicationSocietalBenefitArea_class)]
   \<and> io (declared SurveySocietalBenefitArea_class) =
     Inr [(Input, SurveyApplicationSocietalBenefitArea_class)]"
  by (simp add: io_def)
section \<open>Rating ranges\<close>

text \<open>
  C3. Each of the five rating columns of the association tables accepts exactly the
  integers from 0 to 100, and the \<open>performance_rating\<close> of an application accepts
  exactly the integers from 1 to 100, so 0 is refused there; \<open>NULL\<close> is refused by
  all six. Whatever writes are attempted, every rating the database holds lies in the
  range of its column: a write that offers another value is refused.
\<close>

theorem rating_ranges:
  "accepts SurveyObservingSystemDataProduct_criticality_rating v
     = (\<exists>n. v = Some n \<and> 0 \<le> n \<and> n \<le> 100)
   \<and> accepts SurveyObservingSystemDataProduct_performance_rating v
     = (\<exists>n. v = Some n \<and> 0 \<le> n \<and> n \<le> 100)
   \<and> accepts SurveyDataProductApplication_criticality_rating v
     = (\<exists>n. v = Some n \<and> 0 \<le> n \<and> n \<le> 100)
   \<and> accepts SurveyDataProductApplication_performance_rating v
     = (\<exists>n. v = Some n \<and> 0 \<le> n \<and> n \<le> 100)
   \<and> accepts SurveyApplicationSocietalBenefitArea_performance_rating v
     = (\<exists>n. v = Some n \<and> 0 \<le> n \<and> n \<le> 100)
   \<and> accepts SurveyApplication_performance_rating v
     = (\<exists>n. v = Some n \<and> 0 < n \<and> n \<le> 100)
   \<and> ratings_in_range (run ops)"
proof -
  have "consistent (run ops)" by (rule run_consistent)
  then have "ratings_in_range (run ops)" by (simp add: consistent_def)
  then show ?thesis by (simp only: accepts_rating simp_thms)
qed

text \<open>
  The bounds at work: 0 and 100 are accepted on an edge, 101 and -1 are not; on the
  application 1 and 100 are accepted, 0 and 101 are not; and an insert of an
  application rated 0 leaves the table empty.
\<close>

theorem rating_ranges_witness:
  "accepts SurveyObservingSystemDataProduct_criticality_rating (Some 0)
   \<and> accepts SurveyObservingSystemDataProduct_criticality_rating (Some 100)
   \<and> \<not> accepts SurveyObservingSystemDataProduct_criticality_rating (Some 101)
   \<and> \<not> accepts SurveyApplicationSocietalBenefitArea_performance_rating (Some (- 1))
   \<and> accepts SurveyApplication_performance_rating (Some 1)
   \<and> accepts SurveyApplication_performance_rating (Some 100)
   \<and> \<not> accepts SurveyApplication_performance_rating (Some 0)
   \<and> \<not> accepts SurveyApplication_performance_rating (Some 101)
   \<and> \<not> accepts SurveyApplication_performance_rating None
   \<and> survey_application
        (run [Insert_Survey (survey_row 1), Insert_SurveyApplication (application 1 1 ''A'' 0)])
      = []"
  using rating_ranges [of "Some 0" "[]"] rating_ranges [of "Some 100" "[]"]
    rating_ranges [of "Some 101" "[]"] rating_ranges [of "Some (- 1)" "[]"]
    rating_ranges [of "Some 1" "[]"] rating_ranges [of None "[]"]
    rating_ranges [of None
      "[Insert_Survey (survey_row 1), Insert_SurveyApplication (application 1 1 ''A'' 0)]"]
  by (simp add: run_def commit_def insert_Survey_def insert_SurveyApplication_def
        empty_database_def survey_row_def application_def SurveyApplication_unique_def)

section \<open>The lookup of a class without relations\<close>

text \<open>
  C2, as the spec has it, puts the failure at the definition of the class. Defining a
  class that declares neither relation succeeds; the \<open>RuntimeError\<close> appears when
  \<open>__io__\<close> is called on it.
\<close>

theorem class_definition_does_not_raise:
  "define_class ''SurveyOrphan'' \<lparr>input_relationships = None, output_relationships = None\<rparr>
     startup
   = Inr \<lparr>classes = [(''SurveyOrphan'',
             \<lparr>input_relationships = None, output_relationships = None\<rparr>)],
          io_cache = []\<rparr>
   \<and> fst (call_io ''SurveyOrphan''
            \<lparr>classes = [(''SurveyOrphan'',
               \<lparr>input_relationships = None, output_relationships = None\<rparr>)],
             io_cache = []\<rparr>)
     = Inl (RuntimeError io_error_message)"
  by (simp add: define_class_def startup_def call_io_def io_def)

text \<open>
  C2, amended. For a class that declares neither \<open>input_relationships\<close> nor
  \<open>output_relationships\<close> the body of the lookup raises \<open>RuntimeError\<close> and never
  returns an empty dictionary. Defining the class raises nothing; the error is raised
  by the call of \<open>__io__\<close>, and the call leaves the cache as it was, so every later
  call raises again.
\<close>

theorem io_misconfigured_raises_when_called:
  assumes "input_relationships cls = None" and "output_relationships cls = None"
  shows "io cls = Inl (RuntimeError io_error_message)
    \<and> (\<exists>st'. define_class cname cls st = Inr st'
          \<and> call_io cname st' = (Inl (RuntimeError io_error_message), st'))"
proof -
  from assms have raises: "io cls = Inl (RuntimeError io_error_message)"
    by (simp add: io_def)
  define st' where "st' = st\<lparr>classes := AList.update cname cls (classes st),
                              io_cache := AList.delete cname (io_cache st)\<rparr>"
  have "map_of (classes st') cname = Some cls"
    by (simp add: st'_def update_conv')
  moreover have "map_of (io_cache st') cname = None"
    by (simp add: st'_def delete_conv')
  ultimately have "call_io cname st' = (Inl (RuntimeError io_error_message), st')"
    using raises by (simp add: call_io_def)
  moreover have "define_class cname cls st = Inr st'"
    by (simp add: define_class_def st'_def)
  ultimately show ?thesis using raises by blast
qed

theorem io_misconfigured_raises_when_called_witness:
  "io (declared SurveyObservingSystemDataProduct_class) = Inl (RuntimeError io_error_message)
   \<and> (\<exists>st'. define_class ''SurveyObservingSystemDataProduct''
               (declared SurveyObservingSystemDataProduct_class) startup = Inr st'
          \<and> call_io ''SurveyObservingSystemDataProduct'' st'
              = (Inl (RuntimeError io_error_message), st'))"
  using io_misconfigured_raises_when_called
    [of "declared SurveyObservingSystemDataProduct_class"
        "''SurveyObservingSystemDataProduct''" startup]
  by simp

section \<open>Names within a survey\<close>

text \<open>
  C4, as the spec has it, asks for distinct \<open>short_name\<close>s among the nodes of each of
  the four types. Two benefit areas of one survey are stored side by side, and
  neither has a \<open>short_name\<close>: the class declares no such column.
\<close>

theorem benefit_areas_have_no_short_name:
  "benefit_area 1 1 ''Agriculture'' \<in> set (survey_societal_benefit_area (run two_benefit_areas))
   \<and> benefit_area 2 1 ''Energy'' \<in> set (survey_societal_benefit_area (run two_benefit_areas))
   \<and> benefit_area 1 1 ''Agriculture'' \<noteq> benefit_area 2 1 ''Energy''
   \<and> SurveySocietalBenefitArea.survey_id (benefit_area 1 1 ''Agriculture'')
       = SurveySocietalBenefitArea.survey_id (benefit_area 2 1 ''Energy'')
   \<and> short_name_of (SocietalBenefitArea (benefit_area 1 1 ''Agriculture''))
       = Inl (AttributeError ''short_name'')
   \<and> short_name_of (SocietalBenefitArea (benefit_area 2 1 ''Energy''))
       = Inl (AttributeError ''short_name'')"
  by (simp add: run_two_benefit_areas benefit_area_def)

text \<open>
  C4, amended. Whatever writes are attempted, two different observing systems of one
  survey have different \<open>short_name\<close>s, and so have two different data products and
  two different applications of one survey; two different benefit areas of one
  survey have different \<open>societal_benefit_area_id\<close>s.
\<close>

theorem node_names_unique_within_survey:
  "unique_within_survey SurveyObservingSystem.survey_id short_name
     (survey_observing_system (run ops))
   \<and> unique_within_survey SurveyDataProduct.survey_id short_name
       (survey_data_product (run ops))
   \<and> unique_within_survey SurveyApplication.survey_id short_name
       (survey_application (run ops))
   \<and> unique_within_survey SurveySocietalBenefitArea.survey_id societal_benefit_area_id
       (survey_societal_benefit_area (run ops))"
proof -
  have "consistent (run ops)" by (rule run_consistent)
  then have "node_keys_unique (run ops)" by (simp add: consistent_def)
  then show ?thesis
    unfolding node_keys_unique_def SurveyObservingSystem_unique_def
      SurveyDataProduct_unique_def SurveyApplication_unique_def
      SurveySocietalBenefitArea_unique_def
    by (blast intro: distinct_keys_unique_within_survey)
qed

text \<open>
  Two observing systems of one survey, with their two names; and a third insert that
  offers a name already taken in that survey changes nothing.
\<close>

theorem node_names_unique_within_survey_witness:
  "observing_system 1 1 ''O1'' \<in> set (survey_observing_system (run small_survey))
   \<and> observing_system 2 1 ''O2'' \<in> set (survey_observing_system (run small_survey))
   \<and> observing_system 1 1 ''O1'' \<noteq> observing_system 2 1 ''O2''
   \<and> SurveyObservingSystem.survey_id (observing_system 1 1 ''O1'')
       = SurveyObservingSystem.survey_id (observing_system 2 1 ''O2'')
   \<and> short_name (observing_system 1 1 ''O1'') \<noteq> short_name (observing_system 2 1 ''O2'')
   \<and> commit (run small_survey) (Insert_SurveyObservingSystem (observing_system 3 1 ''O1''))
       = run small_survey"
proof -
  have stored: "observing_system 1 1 ''O1'' \<in> set (survey_observing_system (run small_survey))"
    "observing_system 2 1 ''O2'' \<in> set (survey_observing_system (run small_survey))"
    by (simp_all add: run_small_survey)
  have different: "observing_system 1 1 ''O1'' \<noteq> observing_system 2 1 ''O2''"
    and same: "SurveyObservingSystem.survey_id (observing_system 1 1 ''O1'')
       = SurveyObservingSystem.survey_id (observing_system 2 1 ''O2'')"
    by (simp_all add: observing_system_def)
  from node_names_unique_within_survey [of small_survey] stored different same
  have "short_name (observing_system 1 1 ''O1'') \<noteq> short_name (observing_system 2 1 ''O2'')"
    unfolding unique_within_survey_def by blast
  moreover have "commit (run small_survey)
      (Insert_SurveyObservingSystem (observing_system 3 1 ''O1'')) = run small_survey"
    by (simp add: run_small_survey commit_def insert_SurveyObservingSystem_def
          SurveyObservingSystem_unique_def empty_database_def example_rows)
  ultimately show ?thesis using stored different same by simp
qed

section \<open>The surveys of the endpoints of an edge\<close>

text \<open>
  C5, as the spec has it, puts both endpoints of an edge into one survey. Five writes
  the schema accepts store an edge from an observing system of survey 1 to a data
  product of survey 2.
\<close>

theorem edge_joins_two_surveys:
  "ObservingSystemDataProduct (observing_system_data_product 1 (Some 1) (Some 1) 50 50)
     \<in> set (edges (run edge_across_surveys))
   \<and> source (run edge_across_surveys)
       (ObservingSystemDataProduct (observing_system_data_product 1 (Some 1) (Some 1) 50 50))
     = Some (ObservingSystem (observing_system 1 1 ''O''))
   \<and> target (run edge_across_surveys)
       (ObservingSystemDataProduct (observing_system_data_product 1 (Some 1) (Some 1) 50 50))
     = Some (DataProduct (data_product 1 2 ''D''))
   \<and> node_survey_id (ObservingSystem (observing_system 1 1 ''O'')) = 1
   \<and> node_survey_id (DataProduct (data_product 1 2 ''D'')) = 2"
  by (simp add: run_edge_across_surveys edges_def empty_database_def
        SurveyObservingSystemDataProduct_source_def SurveyObservingSystemDataProduct_target_def
        SurveyObservingSystemDataProduct_observing_system_def
        SurveyObservingSystemDataProduct_data_product_def get_row_def example_rows)

text \<open>
  C5, amended. Whatever writes are attempted, every edge of every variant has
  endpoints that exist: a source or target key that is set leads to a stored node of
  the stage the variant names, with that \<open>id\<close>, and this node belongs to a stored
  survey; a key that is \<open>NULL\<close> gives no endpoint. Nothing relates the survey of the
  source to the survey of the target, and an edge row has no survey column.
\<close>

theorem edge_endpoints_exist: "endpoints_exist (run ops)"
  by (rule consistent_endpoints_exist) (rule run_consistent)

theorem edge_endpoints_exist_witness:
  "endpoint_exists (run edge_across_surveys) (Some 1)
     (Some (ObservingSystem (observing_system 1 1 ''O'')))
   \<and> endpoint_exists (run edge_across_surveys) (Some 1)
       (Some (DataProduct (data_product 1 2 ''D'')))"
proof -
  have "ObservingSystemDataProduct (observing_system_data_product 1 (Some 1) (Some 1) 50 50)
     \<in> set (edges (run edge_across_surveys))"
    by (simp add: run_edge_across_surveys edges_def)
  with edge_endpoints_exist [of edge_across_surveys]
  have "endpoint_exists (run edge_across_surveys)
      (source_id (ObservingSystemDataProduct
         (observing_system_data_product 1 (Some 1) (Some 1) 50 50)))
      (source (run edge_across_surveys) (ObservingSystemDataProduct
         (observing_system_data_product 1 (Some 1) (Some 1) 50 50)))
    \<and> endpoint_exists (run edge_across_surveys)
      (target_id (ObservingSystemDataProduct
         (observing_system_data_product 1 (Some 1) (Some 1) 50 50)))
      (target (run edge_across_surveys) (ObservingSystemDataProduct
         (observing_system_data_product 1 (Some 1) (Some 1) 50 50)))"
    unfolding endpoints_exist_def list_all_iff by blast
  then show ?thesis
    by (simp add: run_edge_across_surveys empty_database_def
          SurveyObservingSystemDataProduct_source_def
          SurveyObservingSystemDataProduct_target_def
          SurveyObservingSystemDataProduct_observing_system_def
          SurveyObservingSystemDataProduct_data_product_def get_row_def example_rows)
qed

section \<open>One edge per pair of nodes\<close>

text \<open>
  C6. Whatever writes are attempted, in each of the three association tables two rows
  that connect the same source node to the same target node are one and the same
  row. A row with a key that is \<open>NULL\<close> connects no pair of nodes.
\<close>

theorem no_two_edges_connect_same_pair:
  "no_parallel_edges survey_observing_system_id
     SurveyObservingSystemDataProduct.survey_data_product_id
     (survey_observing_system_data_product (run ops))
   \<and> no_parallel_edges SurveyDataProductApplication.survey_data_product_id
       SurveyDataProductApplication.survey_application_id
       (survey_data_product_application (run ops))
   \<and> no_parallel_edges SurveyApplicationSocietalBenefitArea.survey_application_id
       survey_societal_benefit_area_id
       (survey_application_societal_benefit_area (run ops))"
proof -
  have "consistent (run ops)" by (rule run_consistent)
  then have "edge_pairs_unique (run ops)" by (simp add: consistent_def)
  then show ?thesis
    unfolding edge_pairs_unique_def SurveyObservingSystemDataProduct_unique_def
      SurveyDataProductApplication_unique_def
      SurveyApplicationSocietalBenefitArea_unique_def
    by (blast intro: distinct_pairs_no_parallel_edges)
qed

text \<open>
  Two edges into one data product from two observing systems; a further insert that
  repeats the pair of the first is refused, whatever its ratings.
\<close>

theorem no_two_edges_connect_same_pair_witness:
  "observing_system_data_product 1 (Some 1) (Some 1) 50 80
     \<in> set (survey_observing_system_data_product (run small_survey))
   \<and> observing_system_data_product 2 (Some 2) (Some 1) 50 70
     \<in> set (survey_observing_system_data_product (run small_survey))
   \<and> survey_observing_system_id (observing_system_data_product 1 (Some 1) (Some 1) 50 80)
       \<noteq> survey_observing_system_id (observing_system_data_product 2 (Some 2) (Some 1) 50 70)
   \<and> apply_op (Insert_SurveyObservingSystemDataProduct
         (observing_system_data_product 3 (Some 1) (Some 1) 10 10)) (run small_survey)
       = Inl UniqueViolation"
proof -
  have stored: "observing_system_data_product 1 (Some 1) (Some 1) 50 80
       \<in> set (survey_observing_system_data_product (run small_survey))"
    "observing_system_data_product 2 (Some 2) (Some 1) 50 70
       \<in> set (survey_observing_system_data_product (run small_survey))"
    by (simp_all add: run_small_survey)
  have different: "observing_system_data_product 1 (Some 1) (Some 1) 50 80
      \<noteq> observing_system_data_product 2 (Some 2) (Some 1) 50 70"
    by (simp add: observing_system_data_product_def)
  have keys: "survey_observing_system_id (observing_system_data_product 1 (Some 1) (Some 1) 50 80)
        = Some 1"
    "SurveyObservingSystemDataProduct.survey_data_product_id
       (observing_system_data_product 1 (Some 1) (Some 1) 50 80) = Some 1"
    "SurveyObservingSystemDataProduct.survey_data_product_id
       (observing_system_data_product 2 (Some 2) (Some 1) 50 70) = Some 1"
    by (simp_all add: observing_system_data_product_def)
  from no_two_edges_connect_same_pair [of small_survey] stored different keys
  have "survey_observing_system_id (observing_system_data_product 2 (Some 2) (Some 1) 50 70)
      \<noteq> Some 1"
    unfolding no_parallel_edges_def by blast
  moreover have "apply_op (Insert_SurveyObservingSystemDataProduct
         (observing_system_data_product 3 (Some 1) (Some 1) 10 10)) (run small_survey)
       = Inl UniqueViolation"
    by (simp add: run_small_survey insert_SurveyObservingSystemDataProduct_def
          SurveyObservingSystemDataProduct_unique_def pair_taken_def references_def
          empty_database_def example_rows)
  ultimately show ?thesis using stored keys by simp
qed

section \<open>Source and target\<close>

text \<open>
  C7. Every edge has a \<open>source\<close> and a \<open>target\<close>, whatever its variant. The source
  of an edge from observing systems to data products is its observing system and its
  target is its data product; from data products to applications, its data product
  and its application; from applications to benefit areas, its application and its
  benefit area. The source is thus a node of the class that declares the class of the
  edge as its output, the target a node of the class that declares it as its input,
  and each is the node whose \<open>id\<close> the matching key of the edge holds.
\<close>

theorem source_target_follow_pipeline:
  "source db (ObservingSystemDataProduct e1)
     = map_option ObservingSystem (SurveyObservingSystemDataProduct_observing_system db e1)
   \<and> target db (ObservingSystemDataProduct e1)
     = map_option DataProduct (SurveyObservingSystemDataProduct_data_product db e1)
   \<and> source db (DataProductApplication e2)
     = map_option DataProduct (SurveyDataProductApplication_data_product db e2)
   \<and> target db (DataProductApplication e2)
     = map_option Application (SurveyDataProductApplication_application db e2)
   \<and> source db (ApplicationSocietalBenefitArea e3)
     = map_option Application (SurveyApplicationSocietalBenefitArea_application db e3)
   \<and> target db (ApplicationSocietalBenefitArea e3)
     = map_option SocietalBenefitArea
         (SurveyApplicationSocietalBenefitArea_societal_benefit_area db e3)
   \<and> (\<forall>n. source db e = Some n \<longrightarrow>
          output_relationships (declared (node_class n)) = Some (edge_class e)
          \<and> source_id e = Some (node_id n) \<and> n \<in> set (nodes db))
   \<and> (\<forall>n. target db e = Some n \<longrightarrow>
          input_relationships (declared (node_class n)) = Some (edge_class e)
          \<and> target_id e = Some (node_id n) \<and> n \<in> set (nodes db))"
proof -
  have src: "output_relationships (declared (node_class n)) = Some (edge_class e)
      \<and> source_id e = Some (node_id n) \<and> n \<in> set (nodes db)"
    if "source db e = Some n" for n
    using that
    by (cases e)
       (auto simp: nodes_def SurveyObservingSystemDataProduct_source_def
          SurveyObservingSystemDataProduct_observing_system_def
          SurveyDataProductApplication_source_def SurveyDataProductApplication_data_product_def
          SurveyApplicationSocietalBenefitArea_source_def
          SurveyApplicationSocietalBenefitArea_application_def
          dest!: get_row_Some)
  have tgt: "input_relationships (declared (node_class n)) = Some (edge_class e)
      \<and> target_id e = Some (node_id n) \<and> n \<in> set (nodes db)"
    if "target db e = Some n" for n
    using that
    by (cases e)
       (auto simp: nodes_def SurveyObservingSystemDataProduct_target_def
          SurveyObservingSystemDataProduct_data_product_def
          SurveyDataProductApplication_target_def SurveyDataProductApplication_application_def
          SurveyApplicationSocietalBenefitArea_target_def
          SurveyApplicationSocietalBenefitArea_societal_benefit_area_def
          dest!: get_row_Some)
  show ?thesis
    using src tgt
    by (simp add: SurveyObservingSystemDataProduct_source_def
          SurveyObservingSystemDataProduct_target_def SurveyDataProductApplication_source_def
          SurveyDataProductApplication_target_def
          SurveyApplicationSocietalBenefitArea_source_def
          SurveyApplicationSocietalBenefitArea_target_def)
qed

text \<open>The three edges of the scenario, with the nodes they lead from and to.\<close>

theorem source_target_follow_pipeline_witness:
  "source (scenario 10 20 (Some 30))
     (ObservingSystemDataProduct (observing_system_data_product 1 (Some 1) (Some 1) 10 80))
     = Some (ObservingSystem (observing_system 1 1 ''O''))
   \<and> target (scenario 10 20 (Some 30))
       (ObservingSystemDataProduct (observing_system_data_product 1 (Some 1) (Some 1) 10 80))
     = Some (DataProduct (data_product 1 1 ''D''))
   \<and> source (scenario 10 20 (Some 30))
       (DataProductApplication (data_product_application 1 (Some 1) (Some 1) 20 60))
     = Some (DataProduct (data_product 1 1 ''D''))
   \<and> target (scenario 10 20 (Some 30))
       (DataProductApplication (data_product_application 1 (Some 1) (Some 1) 20 60))
     = Some (Application (application 1 1 ''A'' 90))
   \<and> source (scenario 10 20 (Some 30))
       (ApplicationSocietalBenefitArea (application_benefit_area 1 (Some 1) (Some 1) 30))
     = Some (Application (application 1 1 ''A'' 90))
   \<and> target (scenario 10 20 (Some 30))
       (ApplicationSocietalBenefitArea (application_benefit_area 1 (Some 1) (Some 1) 30))
     = Some (SocietalBenefitArea (benefit_area 1 1 ''S''))
   \<and> output_relationships (declared (node_class (ObservingSystem (observing_system 1 1 ''O''))))
     = Some (edge_class (ObservingSystemDataProduct
         (observing_system_data_product 1 (Some 1) (Some 1) 10 80)))"
  using source_target_follow_pipeline
    [of "scenario 10 20 (Some 30)" "observing_system_data_product 1 (Some 1) (Some 1) 10 80"
        "data_product_application 1 (Some 1) (Some 1) 20 60"
        "application_benefit_area 1 (Some 1) (Some 1) 30"
        "ObservingSystemDataProduct (observing_system_data_product 1 (Some 1) (Some 1) 10 80)"]
  by (simp add: scenario_def get_row_def example_rows
        SurveyObservingSystemDataProduct_observing_system_def
        SurveyObservingSystemDataProduct_data_product_def
        SurveyDataProductApplication_data_product_def
        SurveyDataProductApplication_application_def
        SurveyApplicationSocietalBenefitArea_application_def
        SurveyApplicationSocietalBenefitArea_societal_benefit_area_def)

section \<open>The project routes\<close>




text \<open>
  What a logged-in request for an existing survey is answered with. Each of the
  three views reads \<open>project.response\<close>, an attribute \<open>Survey\<close> does not have: the
  \<open>AttributeError\<close> leaves the view after the one fetch, \<open>sankey\<close> and
  \<open>render_template\<close> are not reached, and no page is rendered.
\<close>

theorem existing_project_is_not_rendered:
  assumes "is_authenticated a" and "session_get a project_id = Some project"
  shows "view_project a project_id
      = (InternalServerError (AttributeError ''response''), [project_id])
    \<and> view_project_overview a project_id
      = (InternalServerError (AttributeError ''response''), [project_id])
    \<and> edit_project a project_id
      = (InternalServerError (AttributeError ''response''), [project_id])"
  using assms
  by (simp add: view_project_def view_project_overview_def edit_project_def
        login_required_def get_or_404_def Survey_response_def)

theorem existing_project_is_not_rendered_at_project_1:
  "is_authenticated member_request
   \<and> session_get member_request ''1'' = Some (survey_row 1)
   \<and> view_project member_request ''1''
      = (InternalServerError (AttributeError ''response''), [''1''])
   \<and> view_project_overview member_request ''1''
      = (InternalServerError (AttributeError ''response''), [''1''])
   \<and> edit_project member_request ''1''
      = (InternalServerError (AttributeError ''response''), [''1''])"
  using existing_project_is_not_rendered [of member_request "''1''" "survey_row 1"]
  by (simp add: member_request_def)

section \<open>The defaults of a new survey\<close>

text \<open>
  C10. A survey created with none of \<open>private\<close>, \<open>status_id\<close>, \<open>created_by_id\<close>,
  \<open>created_timestamp\<close> and \<open>updated_timestamp\<close> given is written with
  \<open>private\<close> false, with the first entry of \<open>STATUSES\<close> as its status, with the
  \<open>id\<close> of the logged-in user as its creator, and with its two timestamps read from
  the clock during the creation: \<open>created_timestamp\<close> is the first reading,
  \<open>updated_timestamp\<close> the next.
\<close>

theorem survey_defaults:
  assumes "STATUSES env = s # rest" and "current_user env = Some u"
    and "Survey_values.title given = Some t"
    and "Survey_values.status_id given = None"
    and "Survey_values.created_by_id given = None"
    and "Survey_values.created_timestamp given = None"
    and "Survey_values.updated_timestamp given = None"
    and "Survey_values.private' given = None"
  shows "\<exists>row env'. new_Survey env next_id given = Inr (row, env')
    \<and> Survey.private' row = False
    \<and> Survey.status_id row = s
    \<and> Survey.created_by_id row = User.id' u
    \<and> Survey.created_timestamp row = time_at env (now_calls env)
    \<and> Survey.updated_timestamp row = time_at env (Suc (now_calls env))
    \<and> now_calls env' = now_calls env + 2"
  using assms
  by (simp add: new_Survey_def status_id_default_def created_by_id_default_def
        private_default_def datetime_now_def)

theorem survey_defaults_witness:
  "\<exists>row env'. new_Survey some_environment 1 (only_title ''Arctic'') = Inr (row, env')
    \<and> Survey.private' row = False
    \<and> Survey.status_id row = ''new''
    \<and> Survey.created_by_id row = 7
    \<and> Survey.created_timestamp row = 1000
    \<and> Survey.updated_timestamp row = 1001"
  using survey_defaults
    [of some_environment "''new''" "[''in progress'']" some_user "only_title ''Arctic''"
        "''Arctic''" 1]
  unfolding some_environment_def some_user_def only_title_def
  by simp blast

section \<open>The aggregation scenario\<close>

lemmas scenario_edges =
  scenario_def edges_def get_row_def example_rows
  SurveyObservingSystemDataProduct_source_def SurveyObservingSystemDataProduct_target_def
  SurveyDataProductApplication_source_def SurveyDataProductApplication_target_def
  SurveyApplicationSocietalBenefitArea_source_def
  SurveyApplicationSocietalBenefitArea_target_def
  SurveyObservingSystemDataProduct_observing_system_def
  SurveyObservingSystemDataProduct_data_product_def
  SurveyDataProductApplication_data_product_def
  SurveyDataProductApplication_application_def
  SurveyApplicationSocietalBenefitArea_application_def
  SurveyApplicationSocietalBenefitArea_societal_benefit_area_def

lemma scenario_links:
  "sankey (scenario c1 c2 p) (survey_row 1) =
     [(ObservingSystem (observing_system 1 1 ''O''), DataProduct (data_product 1 1 ''D''), 80),
      (DataProduct (data_product 1 1 ''D''), Application (application 1 1 ''A'' 90), 60)]
     @ (case p of
          None \<Rightarrow> []
        | Some r \<Rightarrow> [(Application (application 1 1 ''A'' 90),
                      SocietalBenefitArea (benefit_area 1 1 ''S''), r)])"
  by (cases p)
     (simp_all add: sankey_def in_survey_def link_of_def map_filter_simps scenario_edges)

lemma link_weight_is_edge_rating:
  assumes "l \<in> set (sankey db s)"
  shows "\<exists>e \<in> set (edges db). source db e = Some (fst l) \<and> target db e = Some (fst (snd l))
           \<and> snd (snd l) = edge_performance_rating e"
proof -
  from assms obtain e where e: "e \<in> set (edges db)" and l: "link_of db e = Some l"
    by (auto simp: sankey_def List.map_filter_def)
  then show ?thesis
    by (auto simp: link_of_def split: option.splits)
qed

text \<open>
  C1. In the scenario the links are \<open>(O, D, 80)\<close>, \<open>(D, A, 60)\<close> and, when the
  application has an edge to the benefit area, a third link with that edge's rating;
  every link of any survey carries the performance rating of the edge that connects
  its two nodes. The colour of \<open>A\<close> is its own rating 90, with or without the edge
  to the benefit area and whatever that edge's rating; the colour of a node that is
  not an application is the weighted average of the ratings of its outgoing edges.
\<close>

theorem sankey_scenario:
  "sankey (scenario c1 c2 p) (survey_row 1) =
     [(ObservingSystem (observing_system 1 1 ''O''), DataProduct (data_product 1 1 ''D''), 80),
      (DataProduct (data_product 1 1 ''D''), Application (application 1 1 ''A'' 90), 60)]
     @ (case p of
          None \<Rightarrow> []
        | Some r \<Rightarrow> [(Application (application 1 1 ''A'' 90),
                      SocietalBenefitArea (benefit_area 1 1 ''S''), r)])
   \<and> (\<forall>l \<in> set (sankey db s). \<exists>e \<in> set (edges db).
          source db e = Some (fst l) \<and> target db e = Some (fst (snd l))
          \<and> snd (snd l) = edge_performance_rating e)
   \<and> node_color w (scenario c1 c2 p) (Application (application 1 1 ''A'' 90)) = Some 90
   \<and> node_color w db (Application a) = Some (of_int (SurveyApplication.performance_rating a))
   \<and> (node_class n \<noteq> SurveyApplication_class \<longrightarrow>
        node_color w db n
          = weighted_average (map (\<lambda>e. (w e, edge_performance_rating e)) (outgoing db n)))"
proof -
  have "node_color w db n
      = weighted_average (map (\<lambda>e. (w e, edge_performance_rating e)) (outgoing db n))"
    if "node_class n \<noteq> SurveyApplication_class"
    using that by (cases n) (simp_all add: node_color_def)
  moreover have "node_color w (scenario c1 c2 p) (Application (application 1 1 ''A'' 90))
      = Some 90"
    by (simp add: node_color_def application_def)
  ultimately show ?thesis
    using scenario_links [of c1 c2 p] link_weight_is_edge_rating [of _ db s]
    by (simp add: node_color_def)
qed

text \<open>
  The scenario with an edge from \<open>A\<close> to the benefit area rated 30, every edge
  weighing 1: three links; \<open>O\<close> is coloured 80 and \<open>D\<close> 60, the ratings of their
  single outgoing edges, \<open>A\<close> is coloured 90 and not 30, and the benefit area, which
  has no outgoing edge, has the neutral colour.
\<close>

theorem sankey_scenario_witness:
  "sankey (scenario 10 20 (Some 30)) (survey_row 1) =
     [(ObservingSystem (observing_system 1 1 ''O''), DataProduct (data_product 1 1 ''D''), 80),
      (DataProduct (data_product 1 1 ''D''), Application (application 1 1 ''A'' 90), 60),
      (Application (application 1 1 ''A'' 90), SocietalBenefitArea (benefit_area 1 1 ''S''), 30)]
   \<and> node_color (\<lambda>e. 1) (scenario 10 20 (Some 30)) (Application (application 1 1 ''A'' 90))
       = Some 90
   \<and> node_color (\<lambda>e. 1) (scenario 10 20 (Some 30))
       (ObservingSystem (observing_system 1 1 ''O'')) = Some 80
   \<and> node_color (\<lambda>e. 1) (scenario 10 20 (Some 30)) (DataProduct (data_product 1 1 ''D''))
       = Some 60
   \<and> node_color (\<lambda>e. 1) (scenario 10 20 (Some 30))
       (SocietalBenefitArea (benefit_area 1 1 ''S'')) = None"
  using sankey_scenario
    [of 10 20 "Some 30" "scenario 10 20 (Some 30)" "survey_row 1" "\<lambda>e. 1"
        "application 1 1 ''A'' 90" "ObservingSystem (observing_system 1 1 ''O'')"]
    sankey_scenario
    [of 10 20 "Some 30" "scenario 10 20 (Some 30)" "survey_row 1" "\<lambda>e. 1"
        "application 1 1 ''A'' 90" "DataProduct (data_product 1 1 ''D'')"]
    sankey_scenario
    [of 10 20 "Some 30" "scenario 10 20 (Some 30)" "survey_row 1" "\<lambda>e. 1"
        "application 1 1 ''A'' 90" "SocietalBenefitArea (benefit_area 1 1 ''S'')"]
  by (simp add: outgoing_def weighted_average_def scenario_def edges_def example_rows)

section \<open>Further properties\<close>

text \<open>
  Deleting a data product through the session removes the edges that lead into it
  and out of it: afterwards no row of the two association tables names it.
\<close>

theorem deleted_data_product_leaves_no_edge:
  assumes "delete_SurveyDataProduct i db = Inr db'"
  shows "i \<notin> set (map SurveyDataProduct.id' (survey_data_product db'))
    \<and> Some i \<notin> set (map SurveyObservingSystemDataProduct.survey_data_product_id
                     (survey_observing_system_data_product db'))
    \<and> Some i \<notin> set (map SurveyDataProductApplication.survey_data_product_id
                     (survey_data_product_application db'))"
  using assms
  by (auto simp: delete_SurveyDataProduct_def split: if_splits)

theorem deleted_data_product_leaves_no_edge_witness:
  "\<exists>db'. delete_SurveyDataProduct 1 (scenario 10 20 (Some 30)) = Inr db'
     \<and> survey_data_product db' = []
     \<and> survey_observing_system_data_product db' = []
     \<and> survey_data_product_application db' = []
     \<and> survey_application_societal_benefit_area db'
         = [application_benefit_area 1 (Some 1) (Some 1) 30]"
proof -
  have deleted: "delete_SurveyDataProduct 1 (scenario 10 20 (Some 30))
      = Inr ((scenario 10 20 (Some 30))\<lparr>survey_observing_system_data_product := [],
               survey_data_product_application := [], survey_data_product := []\<rparr>)"
    by (simp add: delete_SurveyDataProduct_def scenario_def example_rows)
  from deleted_data_product_leaves_no_edge [OF deleted] deleted show ?thesis
    by (simp add: scenario_def)
qed


end
